theory Spec2Isabelle
  imports Complex_Main
begin

section \<open>Numbers\<close>

text \<open>
  The ray tracer computes with JavaScript numbers.  They are modelled by \<^typ>\<open>real\<close>:
  rounding and overflow are not part of the model.  Where JavaScript arithmetic on finite
  operands leaves the finite numbers (a division by zero, \<^verbatim>\<open>Math.pow(0, y)\<close> with
  negative \<^verbatim>\<open>y\<close>) the model does not follow the values \<^verbatim>\<open>Infinity\<close> and
  \<^verbatim>\<open>NaN\<close> through the rest of the computation: the function returns the error
  \<open>NonFinite\<close>.  The one exception is \<^verbatim>\<open>Sphere.intersect\<close>, whose \<^verbatim>\<open>NaN\<close> result is a value
  of the model, because \<^verbatim>\<open>computeRayIntersection\<close> goes on after it.  Reading a field of \<^verbatim>\<open>undefined\<close> is the error \<open>TypeError\<close>.
  \<^verbatim>\<open>Math.sqrt\<close> is only ever applied to non-negative arguments, where it is \<^const>\<open>sqrt\<close>.
\<close>

datatype error = TypeError | NonFinite

text \<open>\<^verbatim>\<open>a / b\<close>\<close>

definition js_div :: "real \<Rightarrow> real \<Rightarrow> error + real" where
  "js_div a b = (if b = 0 then Inl NonFinite else Inr (a / b))"

text \<open>
  \<^verbatim>\<open>Math.pow(base, exponent)\<close> for a base that is not negative (every call of the
  source passes \<^verbatim>\<open>Math.max(..., 0)\<close>): \<^verbatim>\<open>pow(x, 0)\<close> is 1, \<^verbatim>\<open>pow(0, y)\<close> is 0
  for positive \<^verbatim>\<open>y\<close> and \<^verbatim>\<open>Infinity\<close> for negative \<^verbatim>\<open>y\<close>.
\<close>

definition Math_pow :: "real \<Rightarrow> real \<Rightarrow> error + real" where
  "Math_pow base exponent =
     (if exponent = 0 then Inr 1
      else if base = 0 then (if 0 < exponent then Inr 0 else Inl NonFinite)
      else Inr (base powr exponent))"

section \<open>math.js: the vector kernel\<close>

record Vector3 =
  vx :: real
  vy :: real
  vz :: real

definition dot :: "Vector3 \<Rightarrow> Vector3 \<Rightarrow> real" where
  "dot v1 v2 = vx v1 * vx v2 + vy v1 * vy v2 + vz v1 * vz v2"

definition cross :: "Vector3 \<Rightarrow> Vector3 \<Rightarrow> Vector3" where
  "cross v1 v2 =
     \<lparr>vx = vy v1 * vz v2 - vz v1 * vy v2,
      vy = vz v1 * vx v2 - vx v1 * vz v2,
      vz = vx v1 * vy v2 - vy v1 * vx v2\<rparr>"

definition length_v :: "Vector3 \<Rightarrow> real" where
  "length_v v = sqrt (dot v v)"

definition normalize_v :: "Vector3 \<Rightarrow> Vector3" where
  "normalize_v v =
     (let len = length_v v
      in if len = 0 then \<lparr>vx = 0, vy = 0, vz = 0\<rparr>
         else \<lparr>vx = vx v / len, vy = vy v / len, vz = vz v / len\<rparr>)"

abbreviation new_Vector3 :: "real \<Rightarrow> real \<Rightarrow> real \<Rightarrow> Vector3" where
  "new_Vector3 a b c \<equiv> \<lparr>vx = a, vy = b, vz = c\<rparr>"

definition add :: "Vector3 \<Rightarrow> Vector3 \<Rightarrow> Vector3" where
  "add v1 v2 = \<lparr>vx = vx v1 + vx v2, vy = vy v1 + vy v2, vz = vz v1 + vz v2\<rparr>"

definition subtract :: "Vector3 \<Rightarrow> Vector3 \<Rightarrow> Vector3" where
  "subtract v1 v2 = \<lparr>vx = vx v1 - vx v2, vy = vy v1 - vy v2, vz = vz v1 - vz v2\<rparr>"

definition scale :: "Vector3 \<Rightarrow> real \<Rightarrow> Vector3" where
  "scale v s = \<lparr>vx = vx v * s, vy = vy v * s, vz = vz v * s\<rparr>"

section \<open>raytracer.js: rays, materials, geometry\<close>

record Ray =
  origin :: Vector3
  direction :: Vector3

definition ray_at :: "Ray \<Rightarrow> real \<Rightarrow> Vector3" where
  "ray_at ray t = add (origin ray) (scale (direction ray) t)"

record RGB =
  cr :: real
  cg :: real
  cb :: real

abbreviation rgb :: "real \<Rightarrow> real \<Rightarrow> real \<Rightarrow> RGB" where
  "rgb a b c \<equiv> \<lparr>cr = a, cg = b, cb = c\<rparr>"

text \<open>
  The optional texture of a material is read by \<^verbatim>\<open>getColorAt\<close> only, which the tracer
  never calls; the record has the fields the tracer reads.
\<close>

record Material =
  color :: RGB
  diffuse :: real
  specular :: real
  shininess :: real
  ambient :: real
  reflection :: real
  transparency :: real
  refractiveIndex :: real

text \<open>The constructor of \<^verbatim>\<open>Material\<close> called with a color and no options.\<close>

definition new_Material :: "RGB \<Rightarrow> Material" where
  "new_Material c =
     \<lparr>color = c, diffuse = 0.7, specular = 0.3, shininess = 32, ambient = 0.1,
      reflection = 0, transparency = 0, refractiveIndex = 1.5\<rparr>"

record Intersection =
  point :: Vector3
  distance :: real
  normal :: Vector3
  material :: Material

record Sphere =
  center :: Vector3
  radius :: real
  sphere_material :: Material

record Plane =
  plane_point :: Vector3
  plane_normal :: Vector3
  plane_material :: Material

text \<open>The constructor of \<^verbatim>\<open>Plane\<close> stores the normalized normal.\<close>

definition new_Plane :: "Vector3 \<Rightarrow> Vector3 \<Rightarrow> Material \<Rightarrow> Plane" where
  "new_Plane p n m = \<lparr>plane_point = p, plane_normal = normalize_v n, plane_material = m\<rparr>"

datatype Geometry = SphereObj Sphere | PlaneObj Plane

text \<open>
  What \<^verbatim>\<open>intersect\<close> returns besides \<^verbatim>\<open>null\<close> (\<open>None\<close>): an \<^verbatim>\<open>Intersection\<close> whose
  fields are numbers of the model, or the \<^verbatim>\<open>Intersection\<close> whose point, distance and normal
  are all \<^verbatim>\<open>NaN\<close>; of the latter only the material is kept.
\<close>

datatype Hit = Hit Intersection | NaN_Hit Material

text \<open>
  \<^verbatim>\<open>Sphere.intersect\<close>.  The two roots are divided by \<^verbatim>\<open>2.0 * a\<close>, which is zero exactly
  for a ray whose direction is the zero vector.  There \<^verbatim>\<open>b\<close> and the discriminant are
  zero too, so the first root is \<^verbatim>\<open>0 / 0 = NaN\<close>; the test \<^verbatim>\<open>t < 0.001\<close> is false for
  \<^verbatim>\<open>NaN\<close>, the second root is never tried, \<^verbatim>\<open>ray.at(NaN)\<close> and \<^verbatim>\<open>normalize\<close> give
  \<^verbatim>\<open>NaN\<close> vectors, and the \<^verbatim>\<open>Intersection\<close> with these fields is returned.
\<close>

definition sphere_hit :: "Sphere \<Rightarrow> Ray \<Rightarrow> real \<Rightarrow> Intersection" where
  "sphere_hit s ray t =
     (let p = ray_at ray t;
          n = normalize_v (subtract p (center s))
      in \<lparr>point = p, distance = t, normal = n, material = sphere_material s\<rparr>)"

definition Sphere_intersect :: "Sphere \<Rightarrow> Ray \<Rightarrow> Hit option" where
  "Sphere_intersect s ray =
     (let oc = subtract (origin ray) (center s);
          a = dot (direction ray) (direction ray);
          b = 2 * dot oc (direction ray);
          c = dot oc oc - radius s * radius s;
          discriminant = b * b - 4 * a * c
      in if discriminant < 0 then None
         else if 2 * a = 0 then Some (NaN_Hit (sphere_material s))
         else
           let sqrtDiscriminant = sqrt discriminant;
               t1 = (- b - sqrtDiscriminant) / (2 * a)
           in if t1 < 0.001 then
                (let t2 = (- b + sqrtDiscriminant) / (2 * a)
                 in if t2 < 0.001 then None
                    else Some (Hit (sphere_hit s ray t2)))
              else Some (Hit (sphere_hit s ray t1)))"

text \<open>
  \<^verbatim>\<open>Plane.intersect\<close>.  The divisor \<^verbatim>\<open>denom\<close> is not zero once the two guards have
  passed.
\<close>

definition Plane_intersect :: "Plane \<Rightarrow> Ray \<Rightarrow> error + Intersection option" where
  "Plane_intersect pl ray =
     (let denom = dot (direction ray) (plane_normal pl)
      in if \<bar>denom\<bar> < 0.0001 then Inr None
         else if denom > 0 then Inr None
         else
           let p0l0 = subtract (plane_point pl) (origin ray)
           in case js_div (dot p0l0 (plane_normal pl)) denom of
                Inl e \<Rightarrow> Inl e
              | Inr t \<Rightarrow>
                  if t < 0.001 then Inr None
                  else Inr (Some \<lparr>point = ray_at ray t, distance = t,
                                   normal = plane_normal pl, material = plane_material pl\<rparr>))"

text \<open>\<^verbatim>\<open>object.intersect(ray)\<close>, for either kind of object.\<close>

fun intersect :: "Geometry \<Rightarrow> Ray \<Rightarrow> error + Hit option" where
  "intersect (SphereObj s) ray = Inr (Sphere_intersect s ray)"
| "intersect (PlaneObj pl) ray =
     (case Plane_intersect pl ray of
        Inl e \<Rightarrow> Inl e
      | Inr None \<Rightarrow> Inr None
      | Inr (Some i) \<Rightarrow> Inr (Some (Hit i)))"

text \<open>
  A light carries its \<^verbatim>\<open>type\<close> string; the tracer distinguishes \<^verbatim>\<open>'directional'\<close>,
  \<^verbatim>\<open>'point'\<close> and everything else.
\<close>

datatype LightType = Directional | Point | OtherType

record Light =
  light_type :: LightType
  position :: Vector3
  light_direction :: Vector3
  light_color :: RGB
  intensity :: real

record Scene =
  objects :: "Geometry list"
  lights :: "Light list"

text \<open>
  \<^verbatim>\<open>computeRayIntersection\<close>: the loop over \<^verbatim>\<open>scene.objects\<close>.  The source keeps
  \<^verbatim>\<open>nearestIntersection\<close> and \<^verbatim>\<open>nearestDistance\<close>, assigned together;
  \<^verbatim>\<open>nearestDistance\<close> is \<^verbatim>\<open>Infinity\<close> exactly while \<^verbatim>\<open>nearestIntersection\<close> is
  \<^verbatim>\<open>null\<close>, so one optional intersection carries both.  An intersection whose distance
  is \<^verbatim>\<open>NaN\<close> fails the test \<^verbatim>\<open>intersection.distance < nearestDistance\<close> and is passed
  over.
\<close>

fun nearest_loop :: "Ray \<Rightarrow> Geometry list \<Rightarrow> Intersection option \<Rightarrow> error + Intersection option" where
  "nearest_loop ray [] nearestIntersection = Inr nearestIntersection"
| "nearest_loop ray (obj # rest) nearestIntersection =
     (case intersect obj ray of
        Inl e \<Rightarrow> Inl e
      | Inr None \<Rightarrow> nearest_loop ray rest nearestIntersection
      | Inr (Some (NaN_Hit m)) \<Rightarrow> nearest_loop ray rest nearestIntersection
      | Inr (Some (Hit i)) \<Rightarrow>
          if (case nearestIntersection of None \<Rightarrow> True | Some n \<Rightarrow> distance i < distance n)
          then nearest_loop ray rest (Some i)
          else nearest_loop ray rest nearestIntersection)"

definition computeRayIntersection :: "Ray \<Rightarrow> Scene \<Rightarrow> error + Intersection option" where
  "computeRayIntersection ray scene = nearest_loop ray (objects scene) None"

section \<open>raytracer.js: shading\<close>

text \<open>The process-wide \<^verbatim>\<open>raytracingSettings\<close>, passed to the functions that read them.\<close>

record raytracingSettings =
  enableShadows :: bool
  maxReflectionDepth :: int
  samplesPerPixel :: int
  enableRefraction :: bool

definition default_raytracingSettings :: raytracingSettings where
  "default_raytracingSettings =
     \<lparr>enableShadows = True, maxReflectionDepth = 3, samplesPerPixel = 1,
      enableRefraction = True\<rparr>"

text \<open>
  The body of the loop over \<^verbatim>\<open>scene.lights\<close> in \<^verbatim>\<open>calculateLighting\<close>, in the order
  of the source.  First \<^verbatim>\<open>lightDir\<close> and \<^verbatim>\<open>lightDistance\<close>; the distance \<^verbatim>\<open>Infinity\<close>
  of a directional light is \<open>None\<close>.  For a light of any other type \<^verbatim>\<open>lightDir\<close> stays
  \<^verbatim>\<open>undefined\<close>, and its first use (by \<^verbatim>\<open>intersect\<close> or by \<^verbatim>\<open>dot\<close>) throws.
\<close>

definition light_geometry :: "Light \<Rightarrow> Vector3 \<Rightarrow> error + (Vector3 \<times> real option)" where
  "light_geometry light p =
     (case light_type light of
        Directional \<Rightarrow> Inr (scale (light_direction light) (- 1), None)
      | Point \<Rightarrow>
          (let lightVector = subtract (position light) p
           in Inr (normalize_v lightVector, Some (length_v lightVector)))
      | OtherType \<Rightarrow> Inl TypeError)"

text \<open>The shadow test: \<^verbatim>\<open>inShadow\<close>.\<close>

definition in_shadow ::
  "raytracingSettings \<Rightarrow> Scene \<Rightarrow> Vector3 \<Rightarrow> Vector3 \<Rightarrow> real option \<Rightarrow> error + bool" where
  "in_shadow st scene p lightDir lightDistance =
     (if enableShadows st then
        (let shadowRay = \<lparr>origin = p, direction = lightDir\<rparr>
         in case computeRayIntersection shadowRay scene of
              Inl e \<Rightarrow> Inl e
            | Inr None \<Rightarrow> Inr False
            | Inr (Some shadowIntersection) \<Rightarrow>
                Inr (case lightDistance of
                       None \<Rightarrow> True
                     | Some d \<Rightarrow> distance shadowIntersection < d))
      else Inr False)"

text \<open>The diffuse and specular contribution of a light that is not in shadow.\<close>

definition add_light ::
  "Material \<Rightarrow> Vector3 \<Rightarrow> Vector3 \<Rightarrow> Light \<Rightarrow> Vector3 \<Rightarrow> real option \<Rightarrow> RGB \<Rightarrow> error + RGB" where
  "add_light m n viewDir light lightDir lightDistance result =
     (let lambertian = max (dot n lightDir) 0
      in case (if lambertian > 0 then
                 (let reflectDir = subtract (scale n (2 * dot n lightDir)) lightDir
                  in Math_pow (max (dot reflectDir viewDir) 0) (shininess m))
               else Inr 0) of
           Inl e \<Rightarrow> Inl e
         | Inr specular_term \<Rightarrow>
             (let intensity' =
                    (case (light_type light, lightDistance) of
                       (Point, Some d) \<Rightarrow> intensity light / (1 + 0.01 * d * d)
                     | _ \<Rightarrow> intensity light);
                  specularIntensity = specular m * specular_term * intensity'
              in Inr \<lparr>cr = cr result + cr (color m) * diffuse m * lambertian * cr (light_color light) * intensity'
                          + cr (light_color light) * specularIntensity,
                      cg = cg result + cg (color m) * diffuse m * lambertian * cg (light_color light) * intensity'
                          + cg (light_color light) * specularIntensity,
                      cb = cb result + cb (color m) * diffuse m * lambertian * cb (light_color light) * intensity'
                          + cb (light_color light) * specularIntensity\<rparr>))"

fun lights_loop ::
  "raytracingSettings \<Rightarrow> Scene \<Rightarrow> Intersection \<Rightarrow> Vector3 \<Rightarrow> Light list \<Rightarrow> RGB \<Rightarrow> error + RGB" where
  "lights_loop st scene isect viewDir [] result = Inr result"
| "lights_loop st scene isect viewDir (light # rest) result =
     (case light_geometry light (point isect) of
        Inl e \<Rightarrow> Inl e
      | Inr (lightDir, lightDistance) \<Rightarrow>
          (case in_shadow st scene (point isect) lightDir lightDistance of
             Inl e \<Rightarrow> Inl e
           | Inr inShadow \<Rightarrow>
               if inShadow then lights_loop st scene isect viewDir rest result
               else
                 (case add_light (material isect) (normal isect) viewDir light lightDir
                         lightDistance result of
                    Inl e \<Rightarrow> Inl e
                  | Inr result' \<Rightarrow> lights_loop st scene isect viewDir rest result')))"

text \<open>\<^verbatim>\<open>Math.min(1, Math.max(0, v))\<close> on the three channels.\<close>

definition clamp01 :: "RGB \<Rightarrow> RGB" where
  "clamp01 c = \<lparr>cr = min 1 (max 0 (cr c)), cg = min 1 (max 0 (cg c)), cb = min 1 (max 0 (cb c))\<rparr>"

definition calculateLighting ::
  "raytracingSettings \<Rightarrow> Intersection \<Rightarrow> Ray \<Rightarrow> Scene \<Rightarrow> error + RGB" where
  "calculateLighting st isect ray scene =
     (let m = material isect;
          viewDir = scale (direction ray) (- 1);
          result = \<lparr>cr = cr (color m) * ambient m,
                    cg = cg (color m) * ambient m,
                    cb = cb (color m) * ambient m\<rparr>
      in case lights_loop st scene isect viewDir (lights scene) result of
           Inl e \<Rightarrow> Inl e
         | Inr result' \<Rightarrow> Inr (clamp01 result'))"

section \<open>raytracer.js: reflection, refraction, Fresnel\<close>

definition calculateReflection :: "Vector3 \<Rightarrow> Vector3 \<Rightarrow> Vector3" where
  "calculateReflection incident n =
     (let dot_product = dot incident n
      in subtract incident (scale n (2 * dot_product)))"

definition calculateRefraction :: "Vector3 \<Rightarrow> Vector3 \<Rightarrow> real \<Rightarrow> error + Vector3 option" where
  "calculateRefraction incident nrm refrIndex =
     (let cosi0 = dot incident nrm;
          (cosi, etai, etat, n) =
            (if cosi0 < 0 then (- cosi0, 1, refrIndex, nrm)
             else (cosi0, refrIndex, 1, scale nrm (- 1)))
      in case js_div etai etat of
           Inl e \<Rightarrow> Inl e
         | Inr eta \<Rightarrow>
             (let discriminant = 1 - eta * eta * (1 - cosi * cosi)
              in if discriminant \<le> 0 then Inr None
                 else
                   (let refractedRay =
                          add (scale incident eta) (scale n (eta * cosi - sqrt discriminant))
                    in Inr (Some (normalize_v refractedRay)))))"

definition calculateFresnelReflection :: "Vector3 \<Rightarrow> Vector3 \<Rightarrow> real \<Rightarrow> error + real" where
  "calculateFresnelReflection incident nrm refrIndex =
     (let cosi = dot incident nrm;
          (etai, etat) = (if cosi > 0 then (refrIndex, 1) else (1, refrIndex))
      in case js_div etai etat of
           Inl e \<Rightarrow> Inl e
         | Inr ratio \<Rightarrow>
             (let sint = ratio * sqrt (max 0 (1 - cosi * cosi))
              in if sint \<ge> 1 then Inr 1
                 else
                   (let cost = sqrt (max 0 (1 - sint * sint));
                        cosi' = \<bar>cosi\<bar>
                    in case js_div (etat * cosi' - etai * cost) (etat * cosi' + etai * cost) of
                         Inl e \<Rightarrow> Inl e
                       | Inr Rs \<Rightarrow>
                           (case js_div (etai * cosi' - etat * cost) (etai * cosi' + etat * cost) of
                              Inl e \<Rightarrow> Inl e
                            | Inr Rp \<Rightarrow> Inr ((Rs * Rs + Rp * Rp) / 2)))))"

section \<open>raytracer.js: the recursive tracer\<close>

text \<open>\<^verbatim>\<open>color * (1 - k) + other * k\<close> on the three channels.\<close>

definition blend :: "RGB \<Rightarrow> RGB \<Rightarrow> real \<Rightarrow> RGB" where
  "blend c other k =
     \<lparr>cr = cr c * (1 - k) + cr other * k,
      cg = cg c * (1 - k) + cg other * k,
      cb = cb c * (1 - k) + cb other * k\<rparr>"

text \<open>
  \<^verbatim>\<open>traceRay\<close>.  The counters in \<^verbatim>\<open>window._raytraceDebugCount\<close> and the console log are
  written at depth 0 only and never read back into the color; they are left out.  The
  constant \<^verbatim>\<open>MAX_DEPTH\<close> is 5.  The definition is accepted with the measure
  \<open>6 - depth\<close> on its recursive calls.
\<close>

function traceRay ::
  "raytracingSettings \<Rightarrow> Ray \<Rightarrow> Scene \<Rightarrow> RGB \<Rightarrow> int \<Rightarrow> error + RGB" where
  "traceRay st ray scene backgroundColor depth =
     (if depth > 5 then Inr backgroundColor
      else
        case computeRayIntersection ray scene of
          Inl e \<Rightarrow> Inl e
        | Inr None \<Rightarrow> Inr backgroundColor
        | Inr (Some isect) \<Rightarrow>
            (case calculateLighting st isect ray scene of
               Inl e \<Rightarrow> Inl e
             | Inr color0 \<Rightarrow>
                 (case (if reflection (material isect) > 0 then
                          (let reflectDir = calculateReflection (direction ray) (normal isect);
                               reflectOrigin = add (point isect) (scale (normal isect) 0.001);
                               reflectRay = \<lparr>origin = reflectOrigin, direction = reflectDir\<rparr>
                           in case traceRay st reflectRay scene backgroundColor (depth + 1) of
                                Inl e \<Rightarrow> Inl e
                              | Inr reflectColor \<Rightarrow>
                                  Inr (blend color0 reflectColor (reflection (material isect))))
                        else Inr color0) of
                    Inl e \<Rightarrow> Inl e
                  | Inr color1 \<Rightarrow>
                      (case (if transparency (material isect) > 0 \<and> enableRefraction st then
                               (case calculateFresnelReflection (direction ray) (normal isect)
                                       (refractiveIndex (material isect)) of
                                  Inl e \<Rightarrow> Inl e
                                | Inr fresnelReflect \<Rightarrow>
                                    (case calculateRefraction (direction ray) (normal isect)
                                            (refractiveIndex (material isect)) of
                                       Inl e \<Rightarrow> Inl e
                                     | Inr None \<Rightarrow> Inr color1
                                     | Inr (Some refractDir) \<Rightarrow>
                                         (let refractOrigin =
                                                subtract (point isect) (scale (normal isect) 0.001);
                                              refractRay =
                                                \<lparr>origin = refractOrigin, direction = refractDir\<rparr>
                                          in case traceRay st refractRay scene backgroundColor
                                                    (depth + 1) of
                                               Inl e \<Rightarrow> Inl e
                                             | Inr refractColor \<Rightarrow>
                                                 Inr (blend color1 refractColor
                                                        (transparency (material isect) *
                                                         (1 - fresnelReflect))))))
                             else Inr color1) of
                         Inl e \<Rightarrow> Inl e
                       | Inr color2 \<Rightarrow> Inr (clamp01 color2)))))"
  by pat_completeness auto
termination
  by (relation "measure (\<lambda>(st, ray, scene, backgroundColor, depth). nat (6 - depth))") auto

declare traceRay.simps [simp del]

text \<open>A color whose three channels lie in \<open>[0,1]\<close>.\<close>

definition unit_range :: "RGB \<Rightarrow> bool" where
  "unit_range c \<longleftrightarrow> 0 \<le> cr c \<and> cr c \<le> 1 \<and> 0 \<le> cg c \<and> cg c \<le> 1 \<and> 0 \<le> cb c \<and> cb c \<le> 1"

text \<open>\<^verbatim>\<open>raytracePixel\<close>: the ray through a pixel from the origin, traced from depth 0.\<close>

definition raytracePixel ::
  "raytracingSettings \<Rightarrow> real \<Rightarrow> real \<Rightarrow> real \<Rightarrow> real \<Rightarrow> Scene \<Rightarrow> RGB \<Rightarrow> error + RGB" where
  "raytracePixel st px py width height scene backgroundColor =
     (case js_div px width of
        Inl e \<Rightarrow> Inl e
      | Inr qx \<Rightarrow>
          (case js_div py height of
             Inl e \<Rightarrow> Inl e
           | Inr qy \<Rightarrow>
               (let ndcX = qx * 2 - 1;
                    ndcY = 1 - qy * 2;
                    ray = \<lparr>origin = new_Vector3 0 0 0,
                           direction = normalize_v (new_Vector3 ndcX ndcY 1)\<rparr>
                in traceRay st ray scene backgroundColor 0)))"

section \<open>camera.js\<close>

record Camera =
  cam_position :: Vector3
  cam_direction :: Vector3
  right :: Vector3
  up :: Vector3
  fov :: real
  aspectRatio :: real
  fovRadians :: real

text \<open>The constructor, with every option given.\<close>

definition new_Camera :: "Vector3 \<Rightarrow> Vector3 \<Rightarrow> Vector3 \<Rightarrow> real \<Rightarrow> real \<Rightarrow> Camera" where
  "new_Camera pos lookAt upGuide fov' aspectRatio' =
     (let d = normalize_v (subtract lookAt pos);
          r = normalize_v (cross d upGuide);
          u = normalize_v (cross r d)
      in \<lparr>cam_position = pos, cam_direction = d, right = r, up = u, fov = fov',
          aspectRatio = aspectRatio', fovRadians = (fov' * pi) / 180\<rparr>)"

definition pan :: "Camera \<Rightarrow> real \<Rightarrow> Camera" where
  "pan cam degrees =
     (let radians = (- degrees * pi) / 180;
          cosTheta = cos radians;
          sinTheta = sin radians;
          newDirX = vx (cam_direction cam) * cosTheta - vz (cam_direction cam) * sinTheta;
          newDirZ = vx (cam_direction cam) * sinTheta + vz (cam_direction cam) * cosTheta;
          d = normalize_v \<lparr>vx = newDirX, vy = vy (cam_direction cam), vz = newDirZ\<rparr>;
          r = normalize_v (cross d (up cam));
          u = normalize_v (cross r d)
      in cam\<lparr>cam_direction := d, right := r, up := u\<rparr>)"

definition tilt :: "Camera \<Rightarrow> real \<Rightarrow> Camera" where
  "tilt cam degrees =
     (let radians = (degrees * pi) / 180;
          cosTheta = cos radians;
          sinTheta = sin radians;
          newDirY = vy (cam_direction cam) * cosTheta - vz (cam_direction cam) * sinTheta;
          newDirZ = vy (cam_direction cam) * sinTheta + vz (cam_direction cam) * cosTheta;
          d = normalize_v \<lparr>vx = vx (cam_direction cam), vy = newDirY, vz = newDirZ\<rparr>;
          u = normalize_v (cross (right cam) d)
      in cam\<lparr>cam_direction := d, up := u\<rparr>)"

section \<open>The Phong sum, as the specification words it\<close>

text \<open>
  The specification describes the color of \<^verbatim>\<open>calculateLighting\<close> as a sum over the lights
  that are not in shadow.  The definitions of this section follow its words, one channel
  \<open>ch\<close> at a time, for comparison with the loop of the source.
\<close>

text \<open>\<open>lightDir\<close>: the negated direction of a directional light, the normalized vector
  from the point to a point light.\<close>

definition spec_lightDir :: "Light \<Rightarrow> Vector3 \<Rightarrow> Vector3" where
  "spec_lightDir light p =
     (case light_type light of
        Directional \<Rightarrow> scale (light_direction light) (- 1)
      | _ \<Rightarrow> normalize_v (subtract (position light) p))"

text \<open>\<open>attenuatedIntensity\<close>: \<open>intensity / (1 + 0.01 lightDistance\<^sup>2)\<close> for a point light,
  the intensity itself for a directional light.\<close>

definition spec_attenuatedIntensity :: "Light \<Rightarrow> Vector3 \<Rightarrow> real" where
  "spec_attenuatedIntensity light p =
     (case light_type light of
        Point \<Rightarrow> intensity light / (1 + 0.01 * (length_v (subtract (position light) p))\<^sup>2)
      | _ \<Rightarrow> intensity light)"

text \<open>A light is in shadow when shadows are enabled and the ray from the point toward the
  light hits an object nearer than the light (any object, for a directional light).\<close>

definition spec_in_shadow :: "raytracingSettings \<Rightarrow> Scene \<Rightarrow> Vector3 \<Rightarrow> Light \<Rightarrow> bool" where
  "spec_in_shadow st scene p light \<longleftrightarrow>
     enableShadows st \<and>
     (case computeRayIntersection \<lparr>origin = p, direction = spec_lightDir light p\<rparr> scene of
        Inr (Some h) \<Rightarrow>
          (case light_type light of
             Point \<Rightarrow> distance h < length_v (subtract (position light) p)
           | _ \<Rightarrow> True)
      | _ \<Rightarrow> False)"

text \<open>\<open>reflect(lightDir, normal)\<close>: the light direction mirrored about the normal.\<close>

definition spec_reflect :: "Vector3 \<Rightarrow> Vector3 \<Rightarrow> Vector3" where
  "spec_reflect lightDir n = subtract (scale n (2 * dot n lightDir)) lightDir"

text \<open>\<open>pow\<close> on a base that is not negative, where its value is finite.\<close>

definition spec_pow :: "real \<Rightarrow> real \<Rightarrow> real" where
  "spec_pow base exponent =
     (if exponent = 0 then 1 else if base = 0 then 0 else base powr exponent)"

text \<open>
  The diffuse term plus the specular term of one light.  With \<open>gated = False\<close> the specular
  term is the one the specification states; with \<open>gated = True\<close> it is added only for a light
  with \<open>dot(normal, lightDir) > 0\<close>.
\<close>

definition spec_light_term ::
  "bool \<Rightarrow> (RGB \<Rightarrow> real) \<Rightarrow> Material \<Rightarrow> Vector3 \<Rightarrow> Vector3 \<Rightarrow> Vector3 \<Rightarrow> Light \<Rightarrow> real" where
  "spec_light_term gated ch m n viewDir p light =
     (let lightDir = spec_lightDir light p;
          attenuatedIntensity = spec_attenuatedIntensity light p
      in ch (color m) * diffuse m * max 0 (dot n lightDir) * ch (light_color light) *
           attenuatedIntensity
         + (if gated \<and> \<not> dot n lightDir > 0 then 0
            else spec_pow (max 0 (dot (spec_reflect lightDir n) viewDir)) (shininess m) *
                   specular m * ch (light_color light) * attenuatedIntensity))"

text \<open>The ambient term plus the terms of the lights not in shadow, clamped to \<open>[0,1]\<close>.\<close>

definition spec_shade ::
  "bool \<Rightarrow> (RGB \<Rightarrow> real) \<Rightarrow> raytracingSettings \<Rightarrow> Intersection \<Rightarrow> Ray \<Rightarrow> Scene \<Rightarrow> real" where
  "spec_shade gated ch st isect ray scene =
     (let m = material isect;
          viewDir = scale (direction ray) (- 1)
      in min 1 (max 0
           (ch (color m) * ambient m +
            (\<Sum>light \<leftarrow> filter (\<lambda>l. \<not> spec_in_shadow st scene (point isect) l) (lights scene).
               spec_light_term gated ch m (normal isect) viewDir (point isect) light))))"

section \<open>Arithmetic and vector lemmas\<close>


lemma dot_self_nonneg: "0 \<le> dot v v"
  by (simp add: dot_def)

section \<open>Sphere.intersect\<close>





section \<open>Plane.intersect\<close>

text \<open>
  C5, as the claim states it, fails: the parallel test of \<^verbatim>\<open>Plane.intersect\<close> compares
  \<open>\<bar>dot(d, n)\<bar>\<close> with 0.0001, not with 0.001.  The unit direction below has
  \<open>dot(d, n) = - 8000 / 16000001\<close>, of absolute value between 0.0001 and 0.001, and the
  floor plane is hit.
\<close>

theorem Plane_intersect_parallel_counterexample:
  "\<bar>dot (direction \<lparr>origin = new_Vector3 0 0 0,
                      direction = new_Vector3 (15999999 / 16000001) (- 8000 / 16000001) 0\<rparr>)
         (plane_normal \<lparr>plane_point = new_Vector3 0 (- 1) 0,
                        plane_normal = new_Vector3 0 1 0,
                        plane_material = new_Material (rgb 1 1 1)\<rparr>)\<bar> < 0.001 \<and>
   Plane_intersect
     \<lparr>plane_point = new_Vector3 0 (- 1) 0, plane_normal = new_Vector3 0 1 0,
      plane_material = new_Material (rgb 1 1 1)\<rparr>
     \<lparr>origin = new_Vector3 0 0 0,
      direction = new_Vector3 (15999999 / 16000001) (- 8000 / 16000001) 0\<rparr> =
   Inr (Some \<lparr>point = new_Vector3 (15999999 / 8000) (- 1) 0, distance = 16000001 / 8000,
              normal = new_Vector3 0 1 0,
              material = new_Material (rgb 1 1 1)\<rparr>)"
  by (simp add: Plane_intersect_def Let_def dot_def subtract_def js_div_def ray_at_def add_def
      scale_def)

text \<open>
  C5, amended: \<^verbatim>\<open>Plane.intersect\<close> returns no hit when \<open>\<bar>dot(d, n)\<bar> < 0.0001\<close>, when
  \<open>dot(d, n) > 0\<close>, or when \<open>t = dot(point - o, n) / dot(d, n) < 0.001\<close>; otherwise it
  returns the hit at distance \<open>t\<close> with the plane's stored normal.  The plane through
  \<open>(0,-1,0)\<close> with normal \<open>(0,1,0)\<close> and the ray from \<open>(0,5,0)\<close> along \<open>(0,-1,0)\<close> give
  distance 6 and the hit point \<open>(0,-1,0)\<close>.
\<close>

theorem Plane_intersect_cases:
  "(let denom = dot (direction ray) (plane_normal pl);
        t = dot (subtract (plane_point pl) (origin ray)) (plane_normal pl) / denom
    in Plane_intersect pl ray =
         (if \<bar>denom\<bar> < 0.0001 \<or> denom > 0 \<or> t < 0.001 then Inr None
          else Inr (Some \<lparr>point = ray_at ray t, distance = t, normal = plane_normal pl,
                           material = plane_material pl\<rparr>))) \<and>
   Plane_intersect
     (new_Plane (new_Vector3 0 (- 1) 0) (new_Vector3 0 1 0) m)
     \<lparr>origin = new_Vector3 0 5 0, direction = new_Vector3 0 (- 1) 0\<rparr> =
   Inr (Some \<lparr>point = new_Vector3 0 (- 1) 0, distance = 6,
              normal = new_Vector3 0 1 0, material = m\<rparr>)"
proof -
  have gen: "Plane_intersect pl ray =
      (if \<bar>dot (direction ray) (plane_normal pl)\<bar> < 0.0001 \<or> dot (direction ray) (plane_normal pl) > 0 \<or>
          dot (subtract (plane_point pl) (origin ray)) (plane_normal pl) /
            dot (direction ray) (plane_normal pl) < 0.001
       then Inr None
       else Inr (Some \<lparr>point = ray_at ray
                           (dot (subtract (plane_point pl) (origin ray)) (plane_normal pl) /
                            dot (direction ray) (plane_normal pl)),
                        distance = dot (subtract (plane_point pl) (origin ray)) (plane_normal pl) /
                            dot (direction ray) (plane_normal pl),
                        normal = plane_normal pl, material = plane_material pl\<rparr>))"
  proof (cases "\<bar>dot (direction ray) (plane_normal pl)\<bar> < 0.0001 \<or> dot (direction ray) (plane_normal pl) > 0")
    case True
    then show ?thesis by (auto simp add: Plane_intersect_def Let_def)
  next
    case False
    then have "dot (direction ray) (plane_normal pl) \<noteq> 0" by auto
    with False show ?thesis by (simp add: Plane_intersect_def Let_def js_div_def)
  qed
  have ex: "Plane_intersect
     (new_Plane (new_Vector3 0 (- 1) 0) (new_Vector3 0 1 0) m)
     \<lparr>origin = new_Vector3 0 5 0, direction = new_Vector3 0 (- 1) 0\<rparr> =
   Inr (Some \<lparr>point = new_Vector3 0 (- 1) 0, distance = 6,
              normal = new_Vector3 0 1 0, material = m\<rparr>)"
    by (simp add: Plane_intersect_def new_Plane_def normalize_v_def length_v_def Let_def dot_def
        subtract_def js_div_def ray_at_def add_def scale_def)
  show ?thesis using gen ex by (simp add: Let_def)
qed

section \<open>The self-intersection guard\<close>

lemma dot_self_zero:
  assumes "dot v v = 0"
  shows "vx v = 0 \<and> vy v = 0 \<and> vz v = 0"
proof -
  have "vx v * vx v + (vy v * vy v + vz v * vz v) = 0"
    using assms by (simp add: dot_def)
  moreover have "0 \<le> vx v * vx v" "0 \<le> vy v * vy v" "0 \<le> vz v * vz v"
    by simp_all
  ultimately have "vx v * vx v = 0 \<and> vy v * vy v = 0 \<and> vz v * vz v = 0"
    by linarith
  then show ?thesis by simp
qed

lemma Sphere_intersect_zero_direction:
  assumes "dot (direction ray) (direction ray) = 0"
  shows "Sphere_intersect s ray = Some (NaN_Hit (sphere_material s))"
proof -
  have "dot (subtract (origin ray) (center s)) (direction ray) = 0"
    using dot_self_zero[OF assms] by (simp add: dot_def)
  with assms show ?thesis
    by (simp add: Sphere_intersect_def Let_def)
qed

lemma Sphere_intersect_distance:
  assumes "Sphere_intersect s ray = Some (Hit i)"
  shows "0.001 \<le> distance i"
  using assms
  by (auto simp add: Sphere_intersect_def Let_def sphere_hit_def split: if_splits)

lemma Plane_intersect_distance:
  assumes "Plane_intersect pl ray = Inr (Some i)"
  shows "0.001 \<le> distance i"
  using assms
  by (auto simp add: Plane_intersect_def Let_def js_div_def split: if_splits)

lemma Plane_intersect_returns: "\<exists>r. Plane_intersect pl ray = Inr r"
proof (cases "\<bar>dot (direction ray) (plane_normal pl)\<bar> < 0.0001 \<or>
              dot (direction ray) (plane_normal pl) > 0")
  case True
  then show ?thesis by (auto simp add: Plane_intersect_def Let_def)
next
  case False
  then have "dot (direction ray) (plane_normal pl) \<noteq> 0" by auto
  with False show ?thesis by (simp add: Plane_intersect_def Let_def js_div_def)
qed

lemma intersect_returns: "\<exists>r. intersect obj ray = Inr r"
proof (cases obj)
  case (SphereObj s)
  then show ?thesis by simp
next
  case (PlaneObj pl)
  obtain r where "Plane_intersect pl ray = Inr r"
    using Plane_intersect_returns by blast
  with PlaneObj show ?thesis by (cases r) simp_all
qed

lemma intersect_distance:
  assumes "intersect obj ray = Inr (Some (Hit i))"
  shows "0.001 \<le> distance i"
proof (cases obj)
  case (SphereObj s)
  with assms have "Sphere_intersect s ray = Some (Hit i)" by simp
  then show ?thesis by (rule Sphere_intersect_distance)
next
  case (PlaneObj pl)
  with assms have "Plane_intersect pl ray = Inr (Some i)"
    by (auto split: sum.splits option.splits)
  then show ?thesis by (rule Plane_intersect_distance)
qed

lemma nearest_loop_returns: "\<exists>r. nearest_loop ray objs acc = Inr r"
proof (induction objs arbitrary: acc)
  case Nil
  then show ?case by simp
next
  case (Cons obj rest)
  obtain r where r: "intersect obj ray = Inr r"
    using intersect_returns by blast
  show ?case
  proof (cases r)
    case None
    with r Cons.IH[of acc] show ?thesis by simp
  next
    case (Some h)
    show ?thesis
    proof (cases h)
      case (Hit j)
      with r Some Cons.IH[of acc] Cons.IH[of "Some j"] show ?thesis by simp
    next
      case (NaN_Hit m)
      with r Some Cons.IH[of acc] show ?thesis by simp
    qed
  qed
qed

lemma computeRayIntersection_returns: "\<exists>r. computeRayIntersection ray scene = Inr r"
  using nearest_loop_returns by (simp add: computeRayIntersection_def)

lemma nearest_loop_distance:
  assumes "nearest_loop ray objs acc = Inr (Some i)"
    and "\<And>n. acc = Some n \<Longrightarrow> 0.001 \<le> distance n"
  shows "0.001 \<le> distance i"
  using assms
proof (induction objs arbitrary: acc)
  case Nil
  then show ?case by simp
next
  case (Cons obj rest)
  obtain r where r: "intersect obj ray = Inr r"
    using intersect_returns by blast
  show ?case
  proof (cases r)
    case None
    with r Cons.prems have "nearest_loop ray rest acc = Inr (Some i)" by simp
    then show ?thesis using Cons.IH Cons.prems(2) by blast
  next
    case (Some h)
    show ?thesis
    proof (cases h)
      case (NaN_Hit m)
      with r Some Cons.prems have "nearest_loop ray rest acc = Inr (Some i)" by simp
      then show ?thesis using Cons.IH Cons.prems(2) by blast
    next
      case (Hit j)
      have j: "0.001 \<le> distance j"
        using r Some Hit intersect_distance by blast
      show ?thesis
      proof (cases "case acc of None \<Rightarrow> True | Some n \<Rightarrow> distance j < distance n")
        case True
        with r Some Hit Cons.prems have "nearest_loop ray rest (Some j) = Inr (Some i)" by simp
        then show ?thesis using Cons.IH[of "Some j"] j by simp
      next
        case False
        with r Some Hit Cons.prems have "nearest_loop ray rest acc = Inr (Some i)" by simp
        then show ?thesis using Cons.IH Cons.prems(2) by blast
      qed
    qed
  qed
qed

lemma computeRayIntersection_distance:
  assumes "computeRayIntersection ray scene = Inr (Some i)"
  shows "0.001 \<le> distance i"
  using assms nearest_loop_distance[of ray "objects scene" None i]
  by (simp add: computeRayIntersection_def)

lemma in_shadow_occluder:
  assumes "in_shadow st scene p lightDir lightDistance = Inr True"
  shows "\<exists>h. computeRayIntersection \<lparr>origin = p, direction = lightDir\<rparr> scene = Inr (Some h) \<and>
             0.001 \<le> distance h \<and> (\<forall>d. lightDistance = Some d \<longrightarrow> distance h < d)"
proof -
  from assms obtain h where
    h: "computeRayIntersection \<lparr>origin = p, direction = lightDir\<rparr> scene = Inr (Some h)"
    and n: "case lightDistance of None \<Rightarrow> True | Some d \<Rightarrow> distance h < d"
    by (auto simp add: in_shadow_def Let_def split: if_splits sum.splits option.splits)
  from n have "\<forall>d. lightDistance = Some d \<longrightarrow> distance h < d"
    by (cases lightDistance) simp_all
  with h computeRayIntersection_distance[OF h] show ?thesis by blast
qed

text \<open>
  What holds of the guard: an intersection with a distance of the model has a distance of
  at least 0.001, whether \<^verbatim>\<open>Sphere.intersect\<close>, \<^verbatim>\<open>Plane.intersect\<close> or
  \<^verbatim>\<open>computeRayIntersection\<close> returns it; \<^verbatim>\<open>Sphere.intersect\<close> returns the \<^verbatim>\<open>NaN\<close>
  intersection exactly for the rays whose direction is the zero vector;
  \<^verbatim>\<open>computeRayIntersection\<close> always returns, and never the \<^verbatim>\<open>NaN\<close> intersection; a ray
  that starts on a plane does not hit that plane; and the shadow test finds a light in
  shadow only through an object at least 0.001 along the shadow ray.
\<close>

lemma hits_beyond_guard:
  "(Sphere_intersect s ray1 = Some (Hit i1) \<longrightarrow> 0.001 \<le> distance i1 \<and> 0 < distance i1) \<and>
   (Sphere_intersect s ray1 = Some (NaN_Hit m) \<longleftrightarrow>
      direction ray1 = new_Vector3 0 0 0 \<and> m = sphere_material s) \<and>
   (Plane_intersect pl ray2 = Inr (Some i2) \<longrightarrow> 0.001 \<le> distance i2 \<and> 0 < distance i2) \<and>
   (\<exists>r. computeRayIntersection ray3 scene = Inr r) \<and>
   (computeRayIntersection ray3 scene = Inr (Some i3) \<longrightarrow> \<not> distance i3 < 0.001) \<and>
   (dot (subtract (plane_point pl) (origin ray4)) (plane_normal pl) = 0 \<longrightarrow>
      Plane_intersect pl ray4 = Inr None) \<and>
   (in_shadow st scene' p lightDir lightDistance = Inr True \<longrightarrow>
      (\<exists>h. computeRayIntersection \<lparr>origin = p, direction = lightDir\<rparr> scene' = Inr (Some h) \<and>
           0.001 \<le> distance h \<and> (\<forall>d. lightDistance = Some d \<longrightarrow> distance h < d)))"
proof -
  have "Plane_intersect pl ray4 = Inr None"
    if "dot (subtract (plane_point pl) (origin ray4)) (plane_normal pl) = 0"
    using that by (simp add: Plane_intersect_def Let_def js_div_def)
  moreover have "0.001 \<le> distance i1 \<and> 0 < distance i1" if "Sphere_intersect s ray1 = Some (Hit i1)"
    using Sphere_intersect_distance[OF that] by simp
  moreover have "Sphere_intersect s ray1 = Some (NaN_Hit m) \<longleftrightarrow>
      direction ray1 = new_Vector3 0 0 0 \<and> m = sphere_material s"
  proof
    assume n: "Sphere_intersect s ray1 = Some (NaN_Hit m)"
    then have "dot (direction ray1) (direction ray1) = 0 \<and> m = sphere_material s"
      by (auto simp add: Sphere_intersect_def Let_def split: if_splits)
    then show "direction ray1 = new_Vector3 0 0 0 \<and> m = sphere_material s"
      using dot_self_zero[of "direction ray1"] by simp
  next
    assume z: "direction ray1 = new_Vector3 0 0 0 \<and> m = sphere_material s"
    then have "dot (direction ray1) (direction ray1) = 0"
      by (simp add: dot_def)
    from Sphere_intersect_zero_direction[OF this] z
    show "Sphere_intersect s ray1 = Some (NaN_Hit m)" by simp
  qed
  moreover have "0.001 \<le> distance i2 \<and> 0 < distance i2" if "Plane_intersect pl ray2 = Inr (Some i2)"
    using Plane_intersect_distance[OF that] by simp
  moreover have "\<not> distance i3 < 0.001" if "computeRayIntersection ray3 scene = Inr (Some i3)"
    using computeRayIntersection_distance[OF that] by simp
  moreover have "\<exists>h. computeRayIntersection \<lparr>origin = p, direction = lightDir\<rparr> scene' = Inr (Some h) \<and>
           0.001 \<le> distance h \<and> (\<forall>d. lightDistance = Some d \<longrightarrow> distance h < d)"
    if "in_shadow st scene' p lightDir lightDistance = Inr True"
    using in_shadow_occluder[OF that] .
  ultimately show ?thesis
    using computeRayIntersection_returns[of ray3 scene] by blast
qed

text \<open>
  C10.  Not every \<^verbatim>\<open>Intersection\<close> that \<^verbatim>\<open>Sphere.intersect\<close> returns has a distance of at
  least 0.001.  The ray from the origin along \<open>+z\<close> hits the sphere of radius 1 centered at
  \<open>(0,0,5)\<close> in \<open>(0,0,4)\<close>.  For a point light at \<open>(0,0,4)\<close> the light vector is the zero
  vector, and \<^verbatim>\<open>calculateLighting\<close> casts the shadow ray from \<open>(0,0,4)\<close> with the direction
  \<open>(0,0,0)\<close>.  On this ray \<^verbatim>\<open>Sphere.intersect\<close> returns the intersection whose distance is
  \<^verbatim>\<open>NaN\<close>, where \<^verbatim>\<open>Plane.intersect\<close> returns \<^verbatim>\<open>null\<close>; \<^verbatim>\<open>computeRayIntersection\<close> passes
  it over and reports no hit, and \<^verbatim>\<open>calculateLighting\<close> returns the ambient color.
\<close>

theorem Sphere_intersect_returns_nan:
  "computeRayIntersection
     \<lparr>origin = new_Vector3 0 0 0, direction = new_Vector3 0 0 1\<rparr>
     \<lparr>objects = [SphereObj \<lparr>center = new_Vector3 0 0 5, radius = 1,
                              sphere_material = new_Material (rgb 1 0 0)\<rparr>],
      lights = [\<lparr>light_type = Point, position = new_Vector3 0 0 4,
                 light_direction = new_Vector3 0 0 0, light_color = rgb 1 1 1,
                 intensity = 1\<rparr>]\<rparr> =
   Inr (Some \<lparr>point = new_Vector3 0 0 4, distance = 4, normal = new_Vector3 0 0 (- 1),
              material = new_Material (rgb 1 0 0)\<rparr>) \<and>
   light_geometry
     \<lparr>light_type = Point, position = new_Vector3 0 0 4, light_direction = new_Vector3 0 0 0,
      light_color = rgb 1 1 1, intensity = 1\<rparr>
     (new_Vector3 0 0 4) = Inr (new_Vector3 0 0 0, Some 0) \<and>
   Sphere_intersect
     \<lparr>center = new_Vector3 0 0 5, radius = 1, sphere_material = new_Material (rgb 1 0 0)\<rparr>
     \<lparr>origin = new_Vector3 0 0 4, direction = new_Vector3 0 0 0\<rparr> =
   Some (NaN_Hit (new_Material (rgb 1 0 0))) \<and>
   Plane_intersect
     \<lparr>plane_point = new_Vector3 0 (- 1) 0, plane_normal = new_Vector3 0 1 0,
      plane_material = new_Material (rgb 1 1 1)\<rparr>
     \<lparr>origin = new_Vector3 0 0 4, direction = new_Vector3 0 0 0\<rparr> = Inr None \<and>
   computeRayIntersection
     \<lparr>origin = new_Vector3 0 0 4, direction = new_Vector3 0 0 0\<rparr>
     \<lparr>objects = [SphereObj \<lparr>center = new_Vector3 0 0 5, radius = 1,
                              sphere_material = new_Material (rgb 1 0 0)\<rparr>],
      lights = [\<lparr>light_type = Point, position = new_Vector3 0 0 4,
                 light_direction = new_Vector3 0 0 0, light_color = rgb 1 1 1,
                 intensity = 1\<rparr>]\<rparr> = Inr None \<and>
   calculateLighting default_raytracingSettings
     \<lparr>point = new_Vector3 0 0 4, distance = 4, normal = new_Vector3 0 0 (- 1),
      material = new_Material (rgb 1 0 0)\<rparr>
     \<lparr>origin = new_Vector3 0 0 0, direction = new_Vector3 0 0 1\<rparr>
     \<lparr>objects = [SphereObj \<lparr>center = new_Vector3 0 0 5, radius = 1,
                              sphere_material = new_Material (rgb 1 0 0)\<rparr>],
      lights = [\<lparr>light_type = Point, position = new_Vector3 0 0 4,
                 light_direction = new_Vector3 0 0 0, light_color = rgb 1 1 1,
                 intensity = 1\<rparr>]\<rparr> = Inr (rgb (1 / 10) 0 0)"
proof -
  have hit: "Sphere_intersect
     \<lparr>center = new_Vector3 0 0 5, radius = 1, sphere_material = new_Material (rgb 1 0 0)\<rparr>
     \<lparr>origin = new_Vector3 0 0 0, direction = new_Vector3 0 0 1\<rparr> =
     Some (Hit \<lparr>point = new_Vector3 0 0 4, distance = 4, normal = new_Vector3 0 0 (- 1),
                 material = new_Material (rgb 1 0 0)\<rparr>)"
    by (simp add: Sphere_intersect_def Let_def dot_def subtract_def sphere_hit_def
        ray_at_def add_def scale_def normalize_v_def length_v_def)
  have nan: "Sphere_intersect
     \<lparr>center = new_Vector3 0 0 5, radius = 1, sphere_material = new_Material (rgb 1 0 0)\<rparr>
     \<lparr>origin = new_Vector3 0 0 4, direction = new_Vector3 0 0 0\<rparr> =
     Some (NaN_Hit (new_Material (rgb 1 0 0)))"
    by (simp add: Sphere_intersect_def Let_def dot_def subtract_def)
  have geo: "light_geometry
     \<lparr>light_type = Point, position = new_Vector3 0 0 4, light_direction = new_Vector3 0 0 0,
      light_color = rgb 1 1 1, intensity = 1\<rparr>
     (new_Vector3 0 0 4) = Inr (new_Vector3 0 0 0, Some 0)"
    by (simp add: light_geometry_def Let_def subtract_def normalize_v_def length_v_def dot_def)
  have pl: "Plane_intersect
     \<lparr>plane_point = new_Vector3 0 (- 1) 0, plane_normal = new_Vector3 0 1 0,
      plane_material = new_Material (rgb 1 1 1)\<rparr>
     \<lparr>origin = new_Vector3 0 0 4, direction = new_Vector3 0 0 0\<rparr> = Inr None"
    by (simp add: Plane_intersect_def Let_def dot_def)
  have sh: "computeRayIntersection
     \<lparr>origin = new_Vector3 0 0 4, direction = new_Vector3 0 0 0\<rparr>
     \<lparr>objects = [SphereObj \<lparr>center = new_Vector3 0 0 5, radius = 1,
                              sphere_material = new_Material (rgb 1 0 0)\<rparr>],
      lights = [\<lparr>light_type = Point, position = new_Vector3 0 0 4,
                 light_direction = new_Vector3 0 0 0, light_color = rgb 1 1 1,
                 intensity = 1\<rparr>]\<rparr> = Inr None"
    using nan by (simp add: computeRayIntersection_def)
  have li: "calculateLighting default_raytracingSettings
     \<lparr>point = new_Vector3 0 0 4, distance = 4, normal = new_Vector3 0 0 (- 1),
      material = new_Material (rgb 1 0 0)\<rparr>
     \<lparr>origin = new_Vector3 0 0 0, direction = new_Vector3 0 0 1\<rparr>
     \<lparr>objects = [SphereObj \<lparr>center = new_Vector3 0 0 5, radius = 1,
                              sphere_material = new_Material (rgb 1 0 0)\<rparr>],
      lights = [\<lparr>light_type = Point, position = new_Vector3 0 0 4,
                 light_direction = new_Vector3 0 0 0, light_color = rgb 1 1 1,
                 intensity = 1\<rparr>]\<rparr> = Inr (rgb (1 / 10) 0 0)"
    apply (simp add: calculateLighting_def Let_def geo in_shadow_def default_raytracingSettings_def
        sh)
    apply (simp add: add_light_def Let_def dot_def new_Material_def clamp01_def)
    done
  show ?thesis
    using hit nan geo pl sh li by (simp add: computeRayIntersection_def)
qed

section \<open>Refraction and Fresnel reflectance\<close>

text \<open>
  C7.  With \<open>cosi\<close>, the index ratio \<open>eta = etai / etat\<close> and the normal \<open>n'\<close> taken from the
  sign of \<open>dot(d, n)\<close> (entering, \<open>dot(d, n) < 0\<close>: \<open>cosi\<close> is negated, the indices are 1 and
  the refractive index, the normal is kept; exiting: the indices are swapped and the normal
  negated), \<^verbatim>\<open>calculateRefraction\<close> returns no direction exactly when
  \<open>k = 1 - eta\<^sup>2 (1 - cosi\<^sup>2) \<le> 0\<close>, and for \<open>k > 0\<close> it returns the normalized
  \<open>d eta + n' (eta cosi - sqrt k)\<close>.  The ratio exists when \<open>etat\<close> is not zero.
\<close>

theorem calculateRefraction_total_internal_reflection:
  "(let entering = dot d n < 0;
        cosi = (if entering then - dot d n else dot d n);
        etai = (if entering then 1 else refrIndex);
        etat = (if entering then refrIndex else 1);
        n' = (if entering then n else scale n (- 1));
        eta = etai / etat;
        k = 1 - eta\<^sup>2 * (1 - cosi\<^sup>2)
    in etat \<noteq> 0 \<longrightarrow>
         0 \<le> cosi \<and>
         (calculateRefraction d n refrIndex = Inr None \<longleftrightarrow> k \<le> 0) \<and>
         (k > 0 \<longrightarrow>
            calculateRefraction d n refrIndex =
              Inr (Some (normalize_v (add (scale d eta) (scale n' (eta * cosi - sqrt k)))))))"
  by (simp add: calculateRefraction_def Let_def js_div_def power2_eq_square not_le)

theorem calculateRefraction_total_internal_reflection_witness:
  "calculateRefraction (new_Vector3 0 (- 1) 0) (new_Vector3 0 1 0) 1.5 =
     Inr (Some (new_Vector3 0 (- 1) 0)) \<and>
   calculateRefraction (new_Vector3 1 0 0) (new_Vector3 0 1 0) 1.5 = Inr None"
  using calculateRefraction_total_internal_reflection
          [of "new_Vector3 0 (- 1) 0" "new_Vector3 0 1 0" "1.5"]
        calculateRefraction_total_internal_reflection
          [of "new_Vector3 1 0 0" "new_Vector3 0 1 0" "1.5"]
  by (simp add: Let_def dot_def scale_def add_def normalize_v_def length_v_def power2_eq_square)

text \<open>
  C8.  \<^verbatim>\<open>calculateFresnelReflection\<close> returns 1 whenever
  \<open>sint = (etai / etat) sqrt (max 0 (1 - cosi\<^sup>2)) \<ge> 1\<close>, and for the incident direction
  \<open>(0,-1,0)\<close>, the normal \<open>(0,1,0)\<close> and the refractive index 1.5 it returns
  \<open>(0.2\<^sup>2 + 0.2\<^sup>2) / 2 = 0.04\<close>.
\<close>

theorem calculateFresnelReflection_values:
  "(let cosi = dot d n;
        etai = (if cosi > 0 then refrIndex else 1);
        etat = (if cosi > 0 then 1 else refrIndex);
        sint = etai / etat * sqrt (max 0 (1 - cosi\<^sup>2))
    in etat \<noteq> 0 \<and> sint \<ge> 1 \<longrightarrow> calculateFresnelReflection d n refrIndex = Inr 1) \<and>
   calculateFresnelReflection (new_Vector3 0 (- 1) 0) (new_Vector3 0 1 0) 1.5 =
     Inr ((0.2\<^sup>2 + 0.2\<^sup>2) / 2) \<and>
   calculateFresnelReflection (new_Vector3 0 (- 1) 0) (new_Vector3 0 1 0) 1.5 = Inr 0.04"
proof -
  have "calculateFresnelReflection (new_Vector3 0 (- 1) 0) (new_Vector3 0 1 0) 1.5 = Inr 0.04"
    by (simp add: calculateFresnelReflection_def Let_def js_div_def dot_def)
  moreover have "((0.2::real)\<^sup>2 + 0.2\<^sup>2) / 2 = 0.04"
    by (simp add: power2_eq_square)
  ultimately show ?thesis
    by (simp add: calculateFresnelReflection_def Let_def js_div_def power2_eq_square)
qed

theorem calculateFresnelReflection_values_witness:
  "1 \<le> 1 / (1 / 2) * sqrt (max 0 (1 - (dot (new_Vector3 1 0 0) (new_Vector3 0 1 0))\<^sup>2)) \<and>
   calculateFresnelReflection (new_Vector3 1 0 0) (new_Vector3 0 1 0) (1 / 2) = Inr 1"
  using calculateFresnelReflection_values[of "new_Vector3 1 0 0" "new_Vector3 0 1 0" "1 / 2"]
  by (simp add: Let_def dot_def)


section \<open>The depth bound of traceRay\<close>

lemma traceRay_all_dom: "All traceRay_dom"
  by (relation "measure (\<lambda>(st, ray, scene, backgroundColor, depth). nat (6 - depth))") auto

lemma traceRay_rel_depth:
  assumes "traceRay_rel x (st, ray, scene, bg, depth)"
  shows "\<exists>ray'. x = (st, ray', scene, bg, depth + 1) \<and> depth \<le> 5"
  using assms
proof (cases rule: traceRay_rel.cases)
  case 1
  from 1(1,2) show ?thesis by simp
next
  case 2
  from 2(1,2) show ?thesis by simp
qed

lemma traceRay_beyond_cap:
  assumes "depth > 5"
  shows "traceRay st ray scene bg depth = Inr bg"
  using assms by (simp add: traceRay.simps)

lemma in_shadow_maxReflectionDepth:
  "in_shadow (st\<lparr>maxReflectionDepth := k\<rparr>) scene p lightDir lightDistance =
   in_shadow st scene p lightDir lightDistance"
  by (simp add: in_shadow_def)

lemma lights_loop_maxReflectionDepth:
  "lights_loop (st\<lparr>maxReflectionDepth := k\<rparr>) scene isect viewDir ls result =
   lights_loop st scene isect viewDir ls result"
  by (induction ls arbitrary: result)
     (simp_all add: in_shadow_maxReflectionDepth split: sum.splits prod.splits)

lemma calculateLighting_maxReflectionDepth:
  "calculateLighting (st\<lparr>maxReflectionDepth := k\<rparr>) isect ray scene =
   calculateLighting st isect ray scene"
  by (simp add: calculateLighting_def lights_loop_maxReflectionDepth)

lemma traceRay_maxReflectionDepth:
  "traceRay (st\<lparr>maxReflectionDepth := k\<rparr>) ray scene bg depth = traceRay st ray scene bg depth"
proof (induction "nat (6 - depth)" arbitrary: depth ray rule: less_induct)
  case less
  show ?case
  proof (cases "depth > 5")
    case True
    then show ?thesis by (simp add: traceRay_beyond_cap)
  next
    case False
    then have "nat (6 - (depth + 1)) < nat (6 - depth)" by simp
    then have IH: "\<And>r. traceRay (st\<lparr>maxReflectionDepth := k\<rparr>) r scene bg (depth + 1) =
                        traceRay st r scene bg (depth + 1)"
      using less by blast
    show ?thesis
      unfolding traceRay.simps[of "st\<lparr>maxReflectionDepth := k\<rparr>" ray scene bg depth]
        traceRay.simps[of st ray scene bg depth]
      by (simp add: IH calculateLighting_maxReflectionDepth Let_def
          cong: sum.case_cong option.case_cong if_cong)
  qed
qed

text \<open>
  C3.  The recursive calls of \<^verbatim>\<open>traceRay\<close> are the relation \<open>traceRay_rel\<close> that its
  definition generates (callee on the left, caller on the right), and \<open>traceRay_dom\<close> is
  the set of arguments from which every chain of recursive calls is finite.  Every argument
  is in \<open>traceRay_dom\<close>: \<^verbatim>\<open>traceRay\<close> terminates.  A call with \<open>depth > 5\<close> returns the
  background color; a recursive call is made at \<open>depth \<le> 5\<close> only, with \<open>depth + 1\<close> and the
  same settings, scene and background; and the value of \<^verbatim>\<open>maxReflectionDepth\<close> does not
  change the result.
\<close>

theorem traceRay_depth_capped:
  "traceRay_dom (st, ray, scene, bg, depth) \<and>
   (depth > 5 \<longrightarrow> traceRay st ray scene bg depth = Inr bg) \<and>
   (traceRay_rel (st', ray', scene', bg', depth') (st, ray, scene, bg, depth) \<longrightarrow>
      depth \<le> 5 \<and> depth' = depth + 1 \<and> st' = st \<and> scene' = scene \<and> bg' = bg) \<and>
   traceRay (st\<lparr>maxReflectionDepth := k\<rparr>) ray scene bg depth = traceRay st ray scene bg depth"
proof -
  have "traceRay_dom (st, ray, scene, bg, depth)"
    using traceRay_all_dom by simp
  moreover have "depth \<le> 5 \<and> depth' = depth + 1 \<and> st' = st \<and> scene' = scene \<and> bg' = bg"
    if "traceRay_rel (st', ray', scene', bg', depth') (st, ray, scene, bg, depth)"
    using traceRay_rel_depth[OF that] by simp
  ultimately show ?thesis
    using traceRay_beyond_cap[where depth = depth and st = st and ray = ray and scene = scene
        and bg = bg]
      traceRay_maxReflectionDepth[where st = st and k = k and ray = ray and scene = scene
        and bg = bg and depth = depth]
    by blast
qed

theorem traceRay_depth_capped_witness:
  "traceRay default_raytracingSettings
     \<lparr>origin = new_Vector3 0 5 0, direction = new_Vector3 0 (- 1) 0\<rparr>
     \<lparr>objects = [PlaneObj \<lparr>plane_point = new_Vector3 0 (- 1) 0,
                             plane_normal = new_Vector3 0 1 0,
                             plane_material = (new_Material (rgb 1 1 1))\<lparr>reflection := 1 / 2\<rparr>\<rparr>],
      lights = []\<rparr>
     (rgb 0 0 1) 6 = Inr (rgb 0 0 1) \<and>
   traceRay_rel
     (default_raytracingSettings,
      \<lparr>origin = new_Vector3 0 (- 999 / 1000) 0, direction = new_Vector3 0 1 0\<rparr>,
      \<lparr>objects = [PlaneObj \<lparr>plane_point = new_Vector3 0 (- 1) 0,
                              plane_normal = new_Vector3 0 1 0,
                              plane_material = (new_Material (rgb 1 1 1))\<lparr>reflection := 1 / 2\<rparr>\<rparr>],
       lights = []\<rparr>,
      rgb 0 0 1, 1)
     (default_raytracingSettings,
      \<lparr>origin = new_Vector3 0 5 0, direction = new_Vector3 0 (- 1) 0\<rparr>,
      \<lparr>objects = [PlaneObj \<lparr>plane_point = new_Vector3 0 (- 1) 0,
                              plane_normal = new_Vector3 0 1 0,
                              plane_material = (new_Material (rgb 1 1 1))\<lparr>reflection := 1 / 2\<rparr>\<rparr>],
       lights = []\<rparr>,
      rgb 0 0 1, 0) \<and>
   (0::int) \<le> 5 \<and> (1::int) = 0 + 1"
proof -
  let ?M = "(new_Material (rgb 1 1 1))\<lparr>reflection := 1 / 2\<rparr>"
  let ?P = "\<lparr>plane_point = new_Vector3 0 (- 1) 0, plane_normal = new_Vector3 0 1 0,
             plane_material = ?M\<rparr>"
  let ?SC = "\<lparr>objects = [PlaneObj ?P], lights = []\<rparr>"
  let ?R = "\<lparr>origin = new_Vector3 0 5 0, direction = new_Vector3 0 (- 1) 0\<rparr>"
  let ?R' = "\<lparr>origin = new_Vector3 0 (- 999 / 1000) 0, direction = new_Vector3 0 1 0\<rparr>"
  let ?I = "\<lparr>point = new_Vector3 0 (- 1) 0, distance = 6, normal = new_Vector3 0 1 0,
             material = ?M\<rparr>"
  have hit: "computeRayIntersection ?R ?SC = Inr (Some ?I)"
    by (simp add: computeRayIntersection_def Plane_intersect_def Let_def dot_def subtract_def
        js_div_def ray_at_def add_def scale_def)
  have light: "calculateLighting default_raytracingSettings ?I ?R ?SC =
      Inr (clamp01 (rgb (1 / 10) (1 / 10) (1 / 10)))"
    by (simp add: calculateLighting_def Let_def new_Material_def)
  have pos: "0 < reflection (material ?I)"
    by (simp add: new_Material_def)
  have dir: "new_Vector3 0 1 0 = calculateReflection (direction ?R) (normal ?I)"
    by (simp add: calculateReflection_def Let_def dot_def subtract_def scale_def)
  have org: "new_Vector3 0 (- 999 / 1000) 0 = add (point ?I) (scale (normal ?I) 0.001)"
    by (simp add: add_def scale_def)
  have call: "traceRay_rel (default_raytracingSettings, ?R', ?SC, rgb 0 0 1, 0 + 1)
                (default_raytracingSettings, ?R, ?SC, rgb 0 0 1, 0)"
    by (rule traceRay_rel.intros(1)[OF _ hit refl light pos dir org refl]) simp
  have six: "(6::int) > 5" by simp
  show ?thesis
    using call six
      traceRay_depth_capped[where st = default_raytracingSettings and ray = ?R and scene = ?SC
        and bg = "rgb 0 0 1" and depth = 6]
      traceRay_depth_capped[where st = default_raytracingSettings and ray = ?R and scene = ?SC
        and bg = "rgb 0 0 1" and depth = 0 and st' = default_raytracingSettings and ray' = ?R'
        and scene' = ?SC and bg' = "rgb 0 0 1" and depth' = 1]
    by simp
qed

section \<open>The range of the colors\<close>

lemma clamp01_unit_range: "unit_range (clamp01 c)"
  by (simp add: unit_range_def clamp01_def)

lemma calculateLighting_unit_range:
  assumes "calculateLighting st isect ray scene = Inr c"
  shows "unit_range c"
  using assms
  by (auto simp add: calculateLighting_def Let_def clamp01_unit_range split: sum.splits)

lemma traceRay_hit_clamped:
  assumes "traceRay st ray scene bg depth = Inr c"
    and "\<not> depth > 5"
    and "computeRayIntersection ray scene = Inr (Some isect)"
  shows "unit_range c"
proof -
  from assms have "\<exists>c'. c = clamp01 c'"
    unfolding traceRay.simps[of st ray scene bg depth]
    by (auto split: sum.splits)
  then show ?thesis
    using clamp01_unit_range by blast
qed

lemma traceRay_miss_background:
  assumes "depth > 5 \<or> computeRayIntersection ray scene = Inr None"
  shows "traceRay st ray scene bg depth = Inr bg"
  using assms unfolding traceRay.simps[of st ray scene bg depth] by auto

text \<open>
  C1, as the claim states it, fails: where no object is hit, or the depth is beyond 5,
  \<^verbatim>\<open>traceRay\<close> returns the background color as it was supplied.
\<close>

theorem traceRay_background_counterexample:
  "traceRay default_raytracingSettings
     \<lparr>origin = new_Vector3 0 0 0, direction = new_Vector3 0 0 1\<rparr>
     \<lparr>objects = [], lights = []\<rparr> (rgb 2 2 2) 0 = Inr (rgb 2 2 2) \<and>
   traceRay default_raytracingSettings
     \<lparr>origin = new_Vector3 0 0 0, direction = new_Vector3 0 0 1\<rparr>
     \<lparr>objects = [SphereObj \<lparr>center = new_Vector3 0 0 5, radius = 1,
                              sphere_material = new_Material (rgb 1 0 0)\<rparr>],
      lights = []\<rparr> (rgb 2 2 2) 6 = Inr (rgb 2 2 2) \<and>
   \<not> cr (rgb 2 2 2) \<le> 1 \<and> \<not> unit_range (rgb 2 2 2)"
  by (simp add: traceRay.simps computeRayIntersection_def unit_range_def)

text \<open>
  C1, amended: every channel of the color returned by \<^verbatim>\<open>calculateLighting\<close> lies in
  \<open>[0,1]\<close>; \<^verbatim>\<open>traceRay\<close> returns the supplied background color unchanged when the depth
  is beyond 5 or no object is hit, and otherwise a color whose channels lie in \<open>[0,1]\<close>; so
  the channels of its result lie in \<open>[0,1]\<close> whenever those of the background color do.
\<close>

theorem traced_colors_unit_range:
  "(calculateLighting st isect ray scene = Inr c \<longrightarrow> unit_range c) \<and>
   (depth > 5 \<or> computeRayIntersection ray' scene' = Inr None \<longrightarrow>
      traceRay st' ray' scene' bg depth = Inr bg) \<and>
   (traceRay st' ray' scene' bg depth = Inr c' \<longrightarrow>
      (if depth > 5 \<or> computeRayIntersection ray' scene' = Inr None then c' = bg
       else unit_range c')) \<and>
   (traceRay st' ray' scene' bg depth = Inr c' \<and> unit_range bg \<longrightarrow> unit_range c')"
proof -
  have a: "unit_range c" if "calculateLighting st isect ray scene = Inr c"
    using calculateLighting_unit_range[OF that] .
  have b: "traceRay st' ray' scene' bg depth = Inr bg"
    if "depth > 5 \<or> computeRayIntersection ray' scene' = Inr None"
    using traceRay_miss_background[OF that] .
  have c: "unit_range c'"
    if t: "traceRay st' ray' scene' bg depth = Inr c'"
      and n: "\<not> (depth > 5 \<or> computeRayIntersection ray' scene' = Inr None)"
  proof (cases "computeRayIntersection ray' scene'")
    case (Inl e)
    with t n show ?thesis
      unfolding traceRay.simps[of st' ray' scene' bg depth] by simp
  next
    case (Inr r)
    with n obtain i where "computeRayIntersection ray' scene' = Inr (Some i)"
      by (cases r) auto
    with t n show ?thesis using traceRay_hit_clamped by blast
  qed
  show ?thesis using a b c by auto
qed

theorem traced_colors_unit_range_witness:
  "calculateLighting default_raytracingSettings
     \<lparr>point = new_Vector3 0 0 4, distance = 4, normal = new_Vector3 0 0 (- 1),
      material = new_Material (rgb 1 0 0)\<rparr>
     \<lparr>origin = new_Vector3 0 0 0, direction = new_Vector3 0 0 1\<rparr>
     \<lparr>objects = [SphereObj \<lparr>center = new_Vector3 0 0 5, radius = 1,
                              sphere_material = new_Material (rgb 1 0 0)\<rparr>],
      lights = []\<rparr> = Inr (rgb (1 / 10) 0 0) \<and>
   unit_range (rgb (1 / 10) 0 0) \<and>
   traceRay default_raytracingSettings
     \<lparr>origin = new_Vector3 0 0 0, direction = new_Vector3 0 0 1\<rparr>
     \<lparr>objects = [SphereObj \<lparr>center = new_Vector3 0 0 5, radius = 1,
                              sphere_material = new_Material (rgb 1 0 0)\<rparr>],
      lights = []\<rparr> (rgb 2 2 2) 0 = Inr (rgb (1 / 10) 0 0) \<and>
   traceRay default_raytracingSettings
     \<lparr>origin = new_Vector3 0 0 0, direction = new_Vector3 0 0 1\<rparr>
     \<lparr>objects = [], lights = []\<rparr> (rgb (1 / 2) (1 / 2) (1 / 2)) 0 =
     Inr (rgb (1 / 2) (1 / 2) (1 / 2)) \<and>
   unit_range (rgb (1 / 2) (1 / 2) (1 / 2))"
proof -
  let ?S = "\<lparr>center = new_Vector3 0 0 5, radius = 1, sphere_material = new_Material (rgb 1 0 0)\<rparr>"
  let ?R = "\<lparr>origin = new_Vector3 0 0 0, direction = new_Vector3 0 0 1\<rparr>"
  let ?I = "\<lparr>point = new_Vector3 0 0 4, distance = 4, normal = new_Vector3 0 0 (- 1),
              material = new_Material (rgb 1 0 0)\<rparr>"
  let ?SC = "\<lparr>objects = [SphereObj ?S], lights = []\<rparr>"
  let ?E = "\<lparr>objects = [], lights = []\<rparr>"
  have hit: "computeRayIntersection ?R ?SC = Inr (Some ?I)"
    by (simp add: computeRayIntersection_def Sphere_intersect_def Let_def dot_def subtract_def
        js_div_def sphere_hit_def ray_at_def add_def scale_def normalize_v_def length_v_def)
  have miss: "computeRayIntersection ?R ?E = Inr None"
    by (simp add: computeRayIntersection_def)
  have light: "calculateLighting default_raytracingSettings ?I ?R ?SC = Inr (rgb (1 / 10) 0 0)"
    by (simp add: calculateLighting_def Let_def new_Material_def clamp01_def)
  have trace: "traceRay default_raytracingSettings ?R ?SC (rgb 2 2 2) 0 = Inr (rgb (1 / 10) 0 0)"
    unfolding traceRay.simps[of default_raytracingSettings ?R ?SC "rgb 2 2 2" 0]
    apply (simp add: hit light)
    apply (simp add: new_Material_def clamp01_def)
    done
  have half: "unit_range (rgb (1 / 2) (1 / 2) (1 / 2))"
    by (simp add: unit_range_def)
  show ?thesis
    using hit miss light trace half
      traced_colors_unit_range[where st = default_raytracingSettings and isect = ?I and ray = ?R
        and scene = ?SC and c = "rgb (1 / 10) 0 0" and st' = default_raytracingSettings
        and ray' = ?R and scene' = ?SC and bg = "rgb 2 2 2" and depth = 0
        and c' = "rgb (1 / 10) 0 0"]
      traced_colors_unit_range[where st' = default_raytracingSettings
        and ray' = ?R and scene' = ?E and bg = "rgb (1 / 2) (1 / 2) (1 / 2)" and depth = 0
        and c' = "rgb (1 / 2) (1 / 2) (1 / 2)"]
    by simp
qed

section \<open>The Phong sum\<close>

lemma light_geometry_spec:
  assumes "light_geometry light p = Inr (lightDir, lightDistance)"
  shows "lightDir = spec_lightDir light p \<and>
         lightDistance = (case light_type light of
                            Point \<Rightarrow> Some (length_v (subtract (position light) p))
                          | _ \<Rightarrow> None) \<and>
         light_type light \<noteq> OtherType"
  using assms
  by (cases "light_type light") (auto simp add: light_geometry_def spec_lightDir_def Let_def)

lemma in_shadow_spec:
  assumes "light_geometry light p = Inr (lightDir, lightDistance)"
    and "in_shadow st scene p lightDir lightDistance = Inr inShadow"
  shows "inShadow = spec_in_shadow st scene p light"
proof -
  note g = light_geometry_spec[OF assms(1)]
  show ?thesis
  proof (cases "light_type light")
    case Directional
    with assms(2) g show ?thesis
      by (auto simp add: in_shadow_def spec_in_shadow_def Let_def
          split: if_splits sum.splits option.splits)
  next
    case Point
    with assms(2) g show ?thesis
      by (auto simp add: in_shadow_def spec_in_shadow_def Let_def
          split: if_splits sum.splits option.splits)
  next
    case OtherType
    with g show ?thesis by simp
  qed
qed

lemma Math_pow_spec:
  assumes "Math_pow base exponent = Inr v"
  shows "v = spec_pow base exponent"
  using assms by (auto simp add: Math_pow_def spec_pow_def split: if_splits)

lemma add_light_value:
  assumes "add_light m n viewDir light lightDir lightDistance result = Inr result'"
  shows "\<exists>s. (if 0 < max (dot n lightDir) 0
              then Math_pow (max (dot (subtract (scale n (2 * dot n lightDir)) lightDir) viewDir) 0)
                     (shininess m)
              else Inr 0) = Inr s \<and>
             result' =
               (let I = (case (light_type light, lightDistance) of
                           (Point, Some d) \<Rightarrow> intensity light / (1 + 0.01 * d * d)
                         | _ \<Rightarrow> intensity light)
                in \<lparr>cr = cr result + cr (color m) * diffuse m * max (dot n lightDir) 0 *
                           cr (light_color light) * I + cr (light_color light) * (specular m * s * I),
                      cg = cg result + cg (color m) * diffuse m * max (dot n lightDir) 0 *
                           cg (light_color light) * I + cg (light_color light) * (specular m * s * I),
                      cb = cb result + cb (color m) * diffuse m * max (dot n lightDir) 0 *
                           cb (light_color light) * I + cb (light_color light) * (specular m * s * I)\<rparr>)"
  using assms unfolding add_light_def Let_def
  by (cases "if 0 < max (dot n lightDir) 0
              then Math_pow (max (dot (subtract (scale n (2 * dot n lightDir)) lightDir) viewDir) 0)
                     (shininess m)
              else Inr 0") auto

lemma add_light_spec:
  assumes g: "light_geometry light p = Inr (lightDir, lightDistance)"
    and a: "add_light m n viewDir light lightDir lightDistance result = Inr result'"
    and ch: "ch = cr \<or> ch = cg \<or> ch = cb"
  shows "ch result' = ch result + spec_light_term True ch m n viewDir p light"
proof -
  note gs = light_geometry_spec[OF g]
  define I where "I = spec_attenuatedIntensity light p"
  have I: "(case (light_type light, lightDistance) of
              (Point, Some d) \<Rightarrow> intensity light / (1 + 0.01 * d * d)
            | _ \<Rightarrow> intensity light) = I"
    using gs by (cases "light_type light")
      (simp_all add: I_def spec_attenuatedIntensity_def power2_eq_square)
  from add_light_value[OF a] obtain s where
    s: "(if 0 < max (dot n lightDir) 0
         then Math_pow (max (dot (subtract (scale n (2 * dot n lightDir)) lightDir) viewDir) 0)
                (shininess m)
         else Inr 0) = Inr s"
    and r: "result' =
       \<lparr>cr = cr result + cr (color m) * diffuse m * max (dot n lightDir) 0 *
                cr (light_color light) * I + cr (light_color light) * (specular m * s * I),
        cg = cg result + cg (color m) * diffuse m * max (dot n lightDir) 0 *
                cg (light_color light) * I + cg (light_color light) * (specular m * s * I),
        cb = cb result + cb (color m) * diffuse m * max (dot n lightDir) 0 *
                cb (light_color light) * I + cb (light_color light) * (specular m * s * I)\<rparr>"
    unfolding I Let_def by blast
  have sv: "s = (if dot n lightDir > 0
                 then spec_pow (max 0 (dot (spec_reflect lightDir n) viewDir)) (shininess m)
                 else 0)"
  proof (cases "dot n lightDir > 0")
    case True
    with s have "Math_pow (max (dot (subtract (scale n (2 * dot n lightDir)) lightDir) viewDir) 0)
                (shininess m) = Inr s" by simp
    from Math_pow_spec[OF this] True show ?thesis
      by (simp add: spec_reflect_def max.commute)
  next
    case False
    with s show ?thesis by simp
  qed
  have t: "spec_light_term True ch m n viewDir p light =
             ch (color m) * diffuse m * max 0 (dot n lightDir) * ch (light_color light) * I +
             s * specular m * ch (light_color light) * I"
    using gs sv by (simp add: spec_light_term_def Let_def I_def)
  from ch r show ?thesis
    unfolding t by (auto simp add: max.commute)
qed

lemma lights_loop_spec:
  assumes "lights_loop st scene isect viewDir ls result = Inr result'"
    and ch: "ch = cr \<or> ch = cg \<or> ch = cb"
  shows "ch result' = ch result +
           (\<Sum>light \<leftarrow> filter (\<lambda>l. \<not> spec_in_shadow st scene (point isect) l) ls.
              spec_light_term True ch (material isect) (normal isect) viewDir (point isect) light)"
  using assms(1)
proof (induction ls arbitrary: result)
  case Nil
  then show ?case by simp
next
  case (Cons light rest)
  from Cons.prems obtain lightDir lightDistance where
    g: "light_geometry light (point isect) = Inr (lightDir, lightDistance)"
    by (auto split: sum.splits)
  from Cons.prems g obtain inShadow where
    sh: "in_shadow st scene (point isect) lightDir lightDistance = Inr inShadow"
    by (auto split: sum.splits)
  note shs = in_shadow_spec[OF g sh]
  show ?case
  proof (cases inShadow)
    case True
    with Cons.prems g sh have "lights_loop st scene isect viewDir rest result = Inr result'"
      by simp
    from Cons.IH[OF this] True shs show ?thesis by simp
  next
    case False
    with Cons.prems g sh obtain r1 where
      a: "add_light (material isect) (normal isect) viewDir light lightDir lightDistance result = Inr r1"
      and l: "lights_loop st scene isect viewDir rest r1 = Inr result'"
      by (auto split: sum.splits)
    from Cons.IH[OF l] add_light_spec[OF g a ch] False shs show ?thesis by simp
  qed
qed

lemma calculateLighting_spec:
  assumes "calculateLighting st isect ray scene = Inr c"
    and ch: "ch = cr \<or> ch = cg \<or> ch = cb"
  shows "ch c = spec_shade True ch st isect ray scene"
proof -
  let ?amb = "\<lparr>cr = cr (color (material isect)) * ambient (material isect),
               cg = cg (color (material isect)) * ambient (material isect),
               cb = cb (color (material isect)) * ambient (material isect)\<rparr>"
  from assms(1) obtain res where
    l: "lights_loop st scene isect (scale (direction ray) (- 1)) (lights scene) ?amb = Inr res"
    and c: "c = clamp01 res"
    by (auto simp add: calculateLighting_def Let_def split: sum.splits)
  from lights_loop_spec[OF l ch] c ch show ?thesis
    by (auto simp add: spec_shade_def Let_def clamp01_def)
qed

lemma Math_pow_finite:
  assumes "0 \<le> exponent"
  shows "\<exists>v. Math_pow base exponent = Inr v"
  using assms by (simp add: Math_pow_def)

lemma add_light_returns:
  assumes "0 \<le> shininess m"
  shows "\<exists>r. add_light m n viewDir light lightDir lightDistance result = Inr r"
proof -
  obtain v where "Math_pow (max (dot (subtract (scale n (2 * dot n lightDir)) lightDir) viewDir) 0)
      (shininess m) = Inr v"
    using Math_pow_finite[OF assms] by blast
  then show ?thesis
    by (simp add: add_light_def Let_def)
qed

lemma in_shadow_returns: "\<exists>b. in_shadow st scene p lightDir lightDistance = Inr b"
proof (cases "enableShadows st")
  case True
  obtain r where "computeRayIntersection \<lparr>origin = p, direction = lightDir\<rparr> scene = Inr r"
    using computeRayIntersection_returns by blast
  with True show ?thesis
    by (cases r) (auto simp add: in_shadow_def Let_def)
next
  case False
  then show ?thesis by (auto simp add: in_shadow_def)
qed

lemma lights_loop_returns:
  assumes "\<forall>l\<in>set ls. light_type l \<noteq> OtherType"
    and sh: "0 \<le> shininess (material isect)"
  shows "\<exists>r. lights_loop st scene isect viewDir ls result = Inr r"
  using assms(1)
proof (induction ls arbitrary: result)
  case Nil
  then show ?case by simp
next
  case (Cons light rest)
  then have ty: "light_type light \<noteq> OtherType"
    and rest: "\<forall>l\<in>set rest. light_type l \<noteq> OtherType"
    by simp_all
  from ty obtain lightDir lightDistance where
    g: "light_geometry light (point isect) = Inr (lightDir, lightDistance)"
    by (cases "light_type light") (simp_all add: light_geometry_def Let_def)
  obtain inShadow where
    s: "in_shadow st scene (point isect) lightDir lightDistance = Inr inShadow"
    using in_shadow_returns by blast
  show ?case
  proof (cases inShadow)
    case True
    with g s Cons.IH[OF rest, of result] show ?thesis by simp
  next
    case False
    obtain r1 where a: "add_light (material isect) (normal isect) viewDir light lightDir
        lightDistance result = Inr r1"
      using add_light_returns[OF sh] by blast
    with False g s Cons.IH[OF rest, of r1] show ?thesis by simp
  qed
qed

lemma calculateLighting_returns:
  assumes "\<forall>l\<in>set (lights scene). light_type l \<noteq> OtherType"
    and "0 \<le> shininess (material isect)"
  shows "\<exists>c. calculateLighting st isect ray scene = Inr c"
proof -
  let ?amb = "\<lparr>cr = cr (color (material isect)) * ambient (material isect),
               cg = cg (color (material isect)) * ambient (material isect),
               cb = cb (color (material isect)) * ambient (material isect)\<rparr>"
  obtain r where "lights_loop st scene isect (scale (direction ray) (- 1)) (lights scene) ?amb = Inr r"
    using lights_loop_returns[OF assms] by blast
  then show ?thesis
    by (simp add: calculateLighting_def Let_def)
qed

lemma inside_sphere_hit:
  "computeRayIntersection
     \<lparr>origin = new_Vector3 0 0 0, direction = new_Vector3 0 0 1\<rparr>
     \<lparr>objects = [SphereObj \<lparr>center = new_Vector3 0 0 0, radius = 1, sphere_material = m\<rparr>],
      lights = ls\<rparr> =
   Inr (Some \<lparr>point = new_Vector3 0 0 1, distance = 1, normal = new_Vector3 0 0 1,
              material = m\<rparr>)"
  by (simp add: computeRayIntersection_def Sphere_intersect_def Let_def dot_def subtract_def
      js_div_def sphere_hit_def ray_at_def add_def scale_def normalize_v_def length_v_def)

lemma inside_sphere_shadow_ray:
  "computeRayIntersection
     \<lparr>origin = new_Vector3 0 0 1, direction = new_Vector3 0 0 (- 1)\<rparr>
     \<lparr>objects = [SphereObj \<lparr>center = new_Vector3 0 0 0, radius = 1, sphere_material = m\<rparr>],
      lights = ls\<rparr> =
   Inr (Some \<lparr>point = new_Vector3 0 0 (- 1), distance = 2, normal = new_Vector3 0 0 (- 1),
              material = m\<rparr>)"
  by (simp add: computeRayIntersection_def Sphere_intersect_def Let_def dot_def subtract_def
      js_div_def sphere_hit_def ray_at_def add_def scale_def normalize_v_def length_v_def)

lemma inside_sphere_lighting:
  "calculateLighting default_raytracingSettings
     \<lparr>point = new_Vector3 0 0 1, distance = 1, normal = new_Vector3 0 0 1,
      material = new_Material (rgb 1 0 0)\<rparr>
     \<lparr>origin = new_Vector3 0 0 0, direction = new_Vector3 0 0 1\<rparr>
     \<lparr>objects = [SphereObj \<lparr>center = new_Vector3 0 0 0, radius = 1,
                              sphere_material = new_Material (rgb 1 0 0)\<rparr>],
      lights = [\<lparr>light_type = Point, position = new_Vector3 0 0 0,
                 light_direction = new_Vector3 0 0 0, light_color = rgb 1 1 1,
                 intensity = 1\<rparr>]\<rparr> =
   Inr (rgb (1 / 10) 0 0)"
proof -
  have g: "light_geometry \<lparr>light_type = Point, position = new_Vector3 0 0 0,
                 light_direction = new_Vector3 0 0 0, light_color = rgb 1 1 1,
                 intensity = 1\<rparr> (new_Vector3 0 0 1) = Inr (new_Vector3 0 0 (- 1), Some 1)"
    by (simp add: light_geometry_def Let_def subtract_def normalize_v_def length_v_def dot_def)
  show ?thesis
    apply (simp add: calculateLighting_def Let_def g in_shadow_def default_raytracingSettings_def
        inside_sphere_shadow_ray)
    apply (simp add: add_light_def Let_def dot_def new_Material_def clamp01_def)
    done
qed

text \<open>
  C6, as the claim states it, fails: the source adds the specular term only for a light
  with \<open>dot(normal, lightDir) > 0\<close>.  The ray from the center of the unit sphere along \<open>+z\<close>
  hits the sphere from inside at \<open>(0,0,1)\<close>, where the outward normal is \<open>(0,0,1)\<close>; a white
  point light at the center is not in shadow.  \<^verbatim>\<open>calculateLighting\<close> returns the ambient
  term \<open>(0.1, 0, 0)\<close>; the sum that the claim states has the specular term
  \<open>1 \<times> 0.3 \<times> 1 \<times> 1 / 1.01 = 30/101\<close> in every channel.
\<close>

theorem calculateLighting_specular_counterexample:
  "computeRayIntersection
     \<lparr>origin = new_Vector3 0 0 0, direction = new_Vector3 0 0 1\<rparr>
     \<lparr>objects = [SphereObj \<lparr>center = new_Vector3 0 0 0, radius = 1,
                              sphere_material = new_Material (rgb 1 0 0)\<rparr>],
      lights = [\<lparr>light_type = Point, position = new_Vector3 0 0 0,
                 light_direction = new_Vector3 0 0 0, light_color = rgb 1 1 1,
                 intensity = 1\<rparr>]\<rparr> =
   Inr (Some \<lparr>point = new_Vector3 0 0 1, distance = 1, normal = new_Vector3 0 0 1,
              material = new_Material (rgb 1 0 0)\<rparr>) \<and>
   calculateLighting default_raytracingSettings
     \<lparr>point = new_Vector3 0 0 1, distance = 1, normal = new_Vector3 0 0 1,
      material = new_Material (rgb 1 0 0)\<rparr>
     \<lparr>origin = new_Vector3 0 0 0, direction = new_Vector3 0 0 1\<rparr>
     \<lparr>objects = [SphereObj \<lparr>center = new_Vector3 0 0 0, radius = 1,
                              sphere_material = new_Material (rgb 1 0 0)\<rparr>],
      lights = [\<lparr>light_type = Point, position = new_Vector3 0 0 0,
                 light_direction = new_Vector3 0 0 0, light_color = rgb 1 1 1,
                 intensity = 1\<rparr>]\<rparr> =
   Inr (rgb (1 / 10) 0 0) \<and>
   spec_shade False cg default_raytracingSettings
     \<lparr>point = new_Vector3 0 0 1, distance = 1, normal = new_Vector3 0 0 1,
      material = new_Material (rgb 1 0 0)\<rparr>
     \<lparr>origin = new_Vector3 0 0 0, direction = new_Vector3 0 0 1\<rparr>
     \<lparr>objects = [SphereObj \<lparr>center = new_Vector3 0 0 0, radius = 1,
                              sphere_material = new_Material (rgb 1 0 0)\<rparr>],
      lights = [\<lparr>light_type = Point, position = new_Vector3 0 0 0,
                 light_direction = new_Vector3 0 0 0, light_color = rgb 1 1 1,
                 intensity = 1\<rparr>]\<rparr> =
   30 / 101 \<and>
   cg (rgb (1 / 10) 0 0) \<noteq> 30 / 101"
proof -
  let ?L = "\<lparr>light_type = Point, position = new_Vector3 0 0 0,
                 light_direction = new_Vector3 0 0 0, light_color = rgb 1 1 1,
                 intensity = 1\<rparr>"
  have d: "spec_lightDir ?L (new_Vector3 0 0 1) = new_Vector3 0 0 (- 1)"
    by (simp add: spec_lightDir_def subtract_def normalize_v_def length_v_def dot_def)
  have i: "spec_attenuatedIntensity ?L (new_Vector3 0 0 1) = 100 / 101"
    by (simp add: spec_attenuatedIntensity_def subtract_def length_v_def dot_def)
  have s: "\<not> spec_in_shadow default_raytracingSettings
     \<lparr>objects = [SphereObj \<lparr>center = new_Vector3 0 0 0, radius = 1,
                              sphere_material = new_Material (rgb 1 0 0)\<rparr>],
      lights = [?L]\<rparr> (new_Vector3 0 0 1) ?L"
    by (simp add: spec_in_shadow_def d inside_sphere_shadow_ray)
       (simp add: subtract_def length_v_def dot_def)
  have t: "spec_light_term False cg (new_Material (rgb 1 0 0)) (new_Vector3 0 0 1)
             (scale (new_Vector3 0 0 1) (- 1)) (new_Vector3 0 0 1) ?L = 30 / 101"
    by (simp add: spec_light_term_def Let_def d i spec_reflect_def spec_pow_def dot_def
        scale_def subtract_def new_Material_def)
  have "spec_shade False cg default_raytracingSettings
     \<lparr>point = new_Vector3 0 0 1, distance = 1, normal = new_Vector3 0 0 1,
      material = new_Material (rgb 1 0 0)\<rparr>
     \<lparr>origin = new_Vector3 0 0 0, direction = new_Vector3 0 0 1\<rparr>
     \<lparr>objects = [SphereObj \<lparr>center = new_Vector3 0 0 0, radius = 1,
                              sphere_material = new_Material (rgb 1 0 0)\<rparr>],
      lights = [?L]\<rparr> = 30 / 101"
    using s t by (simp add: spec_shade_def Let_def) (simp add: new_Material_def)
  then show ?thesis
    using inside_sphere_hit inside_sphere_lighting by simp
qed

text \<open>
  C6, amended: \<^verbatim>\<open>calculateLighting\<close> returns the ambient term plus, for each light that is
  not in shadow, the diffuse term and, when \<open>dot(normal, lightDir) > 0\<close>, the specular
  term, with the attenuated intensity of a point light and the plain intensity of a
  directional light, each channel clamped to \<open>[0,1]\<close>.  It returns a color when every
  light is directional or a point light and the shininess is not negative.
\<close>

theorem calculateLighting_phong_sum:
  "(calculateLighting st isect ray scene = Inr c \<longrightarrow>
      cr c = spec_shade True cr st isect ray scene \<and>
      cg c = spec_shade True cg st isect ray scene \<and>
      cb c = spec_shade True cb st isect ray scene) \<and>
   ((\<forall>l\<in>set (lights scene). light_type l \<noteq> OtherType) \<and>
     0 \<le> shininess (material isect) \<longrightarrow>
      (\<exists>c'. calculateLighting st isect ray scene = Inr c'))"
  using calculateLighting_spec[of st isect ray scene c cr]
    calculateLighting_spec[of st isect ray scene c cg]
    calculateLighting_spec[of st isect ray scene c cb]
    calculateLighting_returns[where scene = scene and st = st and isect = isect and ray = ray]
  by blast

theorem calculateLighting_phong_sum_witness:
  "calculateLighting default_raytracingSettings
     \<lparr>point = new_Vector3 0 0 1, distance = 1, normal = new_Vector3 0 0 1,
      material = new_Material (rgb 1 0 0)\<rparr>
     \<lparr>origin = new_Vector3 0 0 0, direction = new_Vector3 0 0 1\<rparr>
     \<lparr>objects = [SphereObj \<lparr>center = new_Vector3 0 0 0, radius = 1,
                              sphere_material = new_Material (rgb 1 0 0)\<rparr>],
      lights = [\<lparr>light_type = Point, position = new_Vector3 0 0 0,
                 light_direction = new_Vector3 0 0 0, light_color = rgb 1 1 1,
                 intensity = 1\<rparr>]\<rparr> =
   Inr (rgb (1 / 10) 0 0) \<and>
   spec_shade True cr default_raytracingSettings
     \<lparr>point = new_Vector3 0 0 1, distance = 1, normal = new_Vector3 0 0 1,
      material = new_Material (rgb 1 0 0)\<rparr>
     \<lparr>origin = new_Vector3 0 0 0, direction = new_Vector3 0 0 1\<rparr>
     \<lparr>objects = [SphereObj \<lparr>center = new_Vector3 0 0 0, radius = 1,
                              sphere_material = new_Material (rgb 1 0 0)\<rparr>],
      lights = [\<lparr>light_type = Point, position = new_Vector3 0 0 0,
                 light_direction = new_Vector3 0 0 0, light_color = rgb 1 1 1,
                 intensity = 1\<rparr>]\<rparr> = 1 / 10"
proof -
  let ?L = "\<lparr>light_type = Point, position = new_Vector3 0 0 0,
             light_direction = new_Vector3 0 0 0, light_color = rgb 1 1 1, intensity = 1\<rparr>"
  let ?SC = "\<lparr>objects = [SphereObj \<lparr>center = new_Vector3 0 0 0, radius = 1,
                                   sphere_material = new_Material (rgb 1 0 0)\<rparr>],
              lights = [?L]\<rparr>"
  let ?I = "\<lparr>point = new_Vector3 0 0 1, distance = 1, normal = new_Vector3 0 0 1,
             material = new_Material (rgb 1 0 0)\<rparr>"
  let ?R = "\<lparr>origin = new_Vector3 0 0 0, direction = new_Vector3 0 0 1\<rparr>"
  have h1: "\<forall>l\<in>set (lights ?SC). light_type l \<noteq> OtherType"
    by simp
  have h2: "0 \<le> shininess (material ?I)"
    by (simp add: new_Material_def)
  note inst = calculateLighting_phong_sum[where st = default_raytracingSettings and isect = ?I
      and ray = ?R and scene = ?SC]
  from inst h1 h2 obtain c' where c': "calculateLighting default_raytracingSettings ?I ?R ?SC = Inr c'"
    by blast
  with inst[of c'] have e: "cr c' = spec_shade True cr default_raytracingSettings ?I ?R ?SC"
    by blast
  from c' have v: "c' = rgb (1 / 10) 0 0"
    by (simp add: inside_sphere_lighting)
  from e have "spec_shade True cr default_raytracingSettings ?I ?R ?SC = 1 / 10"
    unfolding v by simp
  then show ?thesis
    by (simp add: inside_sphere_lighting)
qed

section \<open>Shadows\<close>

lemma spec_pow_nonneg: "0 \<le> spec_pow base exponent"
  by (simp add: spec_pow_def)

lemma spec_attenuatedIntensity_nonneg:
  assumes "0 \<le> intensity light"
  shows "0 \<le> spec_attenuatedIntensity light p"
  using assms
  by (cases "light_type light") (simp_all add: spec_attenuatedIntensity_def)

lemma spec_light_term_nonneg:
  assumes "0 \<le> ch (color m)" "0 \<le> diffuse m" "0 \<le> specular m"
    and "0 \<le> ch (light_color light)" "0 \<le> intensity light"
  shows "0 \<le> spec_light_term gated ch m n viewDir p light"
proof -
  have I: "0 \<le> spec_attenuatedIntensity light p"
    using assms(5) by (rule spec_attenuatedIntensity_nonneg)
  have d: "0 \<le> ch (color m) * diffuse m * max 0 (dot n (spec_lightDir light p)) *
             ch (light_color light) * spec_attenuatedIntensity light p"
    using assms(1,2,4) I by simp
  have s: "0 \<le> spec_pow (max 0 (dot (spec_reflect (spec_lightDir light p) n) viewDir)) (shininess m) *
             specular m * ch (light_color light) * spec_attenuatedIntensity light p"
    using assms(3,4) I spec_pow_nonneg by simp
  show ?thesis
    using d s by (simp add: spec_light_term_def Let_def)
qed

lemma sum_list_filter_le:
  fixes f :: "'a \<Rightarrow> real"
  assumes "\<forall>x\<in>set xs. 0 \<le> f x"
  shows "(\<Sum>x \<leftarrow> filter P xs. f x) \<le> (\<Sum>x \<leftarrow> xs. f x)"
  using assms by (induction xs) auto

lemma clamp_mono:
  fixes a b :: real
  assumes "a \<le> b"
  shows "min 1 (max 0 a) \<le> min 1 (max 0 b)"
  using assms by (simp add: min_def max_def)

lemma spec_shade_shadows:
  assumes "0 \<le> ch (color (material isect))" "0 \<le> diffuse (material isect)"
    "0 \<le> specular (material isect)"
    and "\<forall>l\<in>set (lights scene). 0 \<le> ch (light_color l) \<and> 0 \<le> intensity l"
  shows "spec_shade True ch (st\<lparr>enableShadows := True\<rparr>) isect ray scene
         \<le> spec_shade True ch (st\<lparr>enableShadows := False\<rparr>) isect ray scene"
proof -
  let ?f = "spec_light_term True ch (material isect) (normal isect) (scale (direction ray) (- 1))
              (point isect)"
  have off: "filter (\<lambda>l. \<not> spec_in_shadow (st\<lparr>enableShadows := False\<rparr>) scene (point isect) l)
               (lights scene) = lights scene"
    by (simp add: spec_in_shadow_def)
  have "\<forall>l\<in>set (lights scene). 0 \<le> ?f l"
    using assms spec_light_term_nonneg by blast
  then have "(\<Sum>l \<leftarrow> filter (\<lambda>l. \<not> spec_in_shadow (st\<lparr>enableShadows := True\<rparr>) scene (point isect) l)
                 (lights scene). ?f l) \<le> (\<Sum>l \<leftarrow> lights scene. ?f l)"
    by (rule sum_list_filter_le)
  then have "ch (color (material isect)) * ambient (material isect) +
        (\<Sum>l \<leftarrow> filter (\<lambda>l. \<not> spec_in_shadow (st\<lparr>enableShadows := True\<rparr>) scene (point isect) l)
                 (lights scene). ?f l)
      \<le> ch (color (material isect)) * ambient (material isect) + (\<Sum>l \<leftarrow> lights scene. ?f l)"
    by simp
  then show ?thesis
    unfolding spec_shade_def Let_def off by (rule clamp_mono)
qed

text \<open>
  C9.  For a material whose color channels and diffuse and specular coefficients are not
  negative, and lights whose color channels and intensities are not negative, every
  channel of the color of \<^verbatim>\<open>calculateLighting\<close> with \<^verbatim>\<open>enableShadows = false\<close> is at least
  the channel of the color with \<^verbatim>\<open>enableShadows = true\<close>.
\<close>

theorem shadows_off_not_darker:
  assumes "0 \<le> cr (color (material isect))" "0 \<le> cg (color (material isect))"
    "0 \<le> cb (color (material isect))"
    and "0 \<le> diffuse (material isect)" "0 \<le> specular (material isect)"
    and "\<forall>l\<in>set (lights scene).
           0 \<le> cr (light_color l) \<and> 0 \<le> cg (light_color l) \<and> 0 \<le> cb (light_color l) \<and>
           0 \<le> intensity l"
    and "calculateLighting (st\<lparr>enableShadows := True\<rparr>) isect ray scene = Inr c_on"
    and "calculateLighting (st\<lparr>enableShadows := False\<rparr>) isect ray scene = Inr c_off"
  shows "cr c_on \<le> cr c_off \<and> cg c_on \<le> cg c_off \<and> cb c_on \<le> cb c_off"
proof -
  have "ch c_on \<le> ch c_off"
    if ch: "ch = cr \<or> ch = cg \<or> ch = cb" for ch
  proof -
    have c0: "0 \<le> ch (color (material isect))"
      using ch assms(1-3) by auto
    have l0: "\<forall>l\<in>set (lights scene). 0 \<le> ch (light_color l) \<and> 0 \<le> intensity l"
      using ch assms(6) by auto
    have "ch c_on = spec_shade True ch (st\<lparr>enableShadows := True\<rparr>) isect ray scene"
      using calculateLighting_spec[OF assms(7) ch] .
    moreover have "ch c_off = spec_shade True ch (st\<lparr>enableShadows := False\<rparr>) isect ray scene"
      using calculateLighting_spec[OF assms(8) ch] .
    ultimately show ?thesis
      using spec_shade_shadows[OF c0 assms(4,5) l0] by simp
  qed
  then show ?thesis by simp
qed

theorem shadows_off_not_darker_witness:
  "calculateLighting (default_raytracingSettings\<lparr>enableShadows := True\<rparr>)
     \<lparr>point = new_Vector3 0 (- 1) 0, distance = 1, normal = new_Vector3 0 1 0,
      material = new_Material (rgb 1 1 1)\<rparr>
     \<lparr>origin = new_Vector3 0 0 0, direction = new_Vector3 0 (- 1) 0\<rparr>
     \<lparr>objects = [PlaneObj \<lparr>plane_point = new_Vector3 0 (- 1) 0,
                             plane_normal = new_Vector3 0 1 0,
                             plane_material = new_Material (rgb 1 1 1)\<rparr>,
                  SphereObj \<lparr>center = new_Vector3 0 2 0, radius = 1,
                              sphere_material = new_Material (rgb 1 0 0)\<rparr>],
      lights = [\<lparr>light_type = Directional, position = new_Vector3 0 0 0,
                 light_direction = new_Vector3 0 (- 1) 0, light_color = rgb 1 1 1,
                 intensity = 1 / 2\<rparr>]\<rparr> =
   Inr (rgb (1 / 10) (1 / 10) (1 / 10)) \<and>
   calculateLighting (default_raytracingSettings\<lparr>enableShadows := False\<rparr>)
     \<lparr>point = new_Vector3 0 (- 1) 0, distance = 1, normal = new_Vector3 0 1 0,
      material = new_Material (rgb 1 1 1)\<rparr>
     \<lparr>origin = new_Vector3 0 0 0, direction = new_Vector3 0 (- 1) 0\<rparr>
     \<lparr>objects = [PlaneObj \<lparr>plane_point = new_Vector3 0 (- 1) 0,
                             plane_normal = new_Vector3 0 1 0,
                             plane_material = new_Material (rgb 1 1 1)\<rparr>,
                  SphereObj \<lparr>center = new_Vector3 0 2 0, radius = 1,
                              sphere_material = new_Material (rgb 1 0 0)\<rparr>],
      lights = [\<lparr>light_type = Directional, position = new_Vector3 0 0 0,
                 light_direction = new_Vector3 0 (- 1) 0, light_color = rgb 1 1 1,
                 intensity = 1 / 2\<rparr>]\<rparr> =
   Inr (rgb (6 / 10) (6 / 10) (6 / 10)) \<and>
   cr (rgb (1 / 10) (1 / 10) (1 / 10)) \<le> cr (rgb (6 / 10) (6 / 10) (6 / 10))"
proof -
  let ?M = "new_Material (rgb 1 1 1)"
  let ?L = "\<lparr>light_type = Directional, position = new_Vector3 0 0 0,
             light_direction = new_Vector3 0 (- 1) 0, light_color = rgb 1 1 1,
             intensity = 1 / 2\<rparr>"
  let ?SC = "\<lparr>objects = [PlaneObj \<lparr>plane_point = new_Vector3 0 (- 1) 0,
                                  plane_normal = new_Vector3 0 1 0, plane_material = ?M\<rparr>,
                         SphereObj \<lparr>center = new_Vector3 0 2 0, radius = 1,
                                    sphere_material = new_Material (rgb 1 0 0)\<rparr>],
              lights = [?L]\<rparr>"
  let ?I = "\<lparr>point = new_Vector3 0 (- 1) 0, distance = 1, normal = new_Vector3 0 1 0,
             material = ?M\<rparr>"
  let ?R = "\<lparr>origin = new_Vector3 0 0 0, direction = new_Vector3 0 (- 1) 0\<rparr>"
  have g: "light_geometry ?L (new_Vector3 0 (- 1) 0) = Inr (new_Vector3 0 1 0, None)"
    by (simp add: light_geometry_def scale_def)
  have sh: "computeRayIntersection
      \<lparr>origin = new_Vector3 0 (- 1) 0, direction = new_Vector3 0 1 0\<rparr> ?SC =
      Inr (Some \<lparr>point = new_Vector3 0 1 0, distance = 2, normal = new_Vector3 0 (- 1) 0,
                 material = new_Material (rgb 1 0 0)\<rparr>)"
    by (simp add: computeRayIntersection_def Plane_intersect_def Sphere_intersect_def Let_def
        dot_def subtract_def js_div_def sphere_hit_def ray_at_def add_def scale_def
        normalize_v_def length_v_def)
  have on: "calculateLighting (default_raytracingSettings\<lparr>enableShadows := True\<rparr>) ?I ?R ?SC =
      Inr (rgb (1 / 10) (1 / 10) (1 / 10))"
    apply (simp add: calculateLighting_def Let_def g in_shadow_def sh)
    apply (simp add: new_Material_def clamp01_def)
    done
  have off: "calculateLighting (default_raytracingSettings\<lparr>enableShadows := False\<rparr>) ?I ?R ?SC =
      Inr (rgb (6 / 10) (6 / 10) (6 / 10))"
    apply (simp add: calculateLighting_def Let_def g in_shadow_def)
    apply (simp add: add_light_def Let_def dot_def scale_def subtract_def Math_pow_def
        new_Material_def clamp01_def)
    done
  have m: "0 \<le> cr (color (material ?I))" "0 \<le> cg (color (material ?I))"
    "0 \<le> cb (color (material ?I))" "0 \<le> diffuse (material ?I)" "0 \<le> specular (material ?I)"
    by (simp_all add: new_Material_def)
  have l: "\<forall>l\<in>set (lights ?SC).
           0 \<le> cr (light_color l) \<and> 0 \<le> cg (light_color l) \<and> 0 \<le> cb (light_color l) \<and>
           0 \<le> intensity l"
    by simp
  from shadows_off_not_darker[OF m l on off] on off show ?thesis
    by simp
qed

section \<open>The camera basis\<close>

lemma dot_cross_left: "dot (cross a b) a = 0"
  by (simp add: dot_def cross_def algebra_simps)

lemma dot_cross_right: "dot (cross a b) b = 0"
  by (simp add: dot_def cross_def algebra_simps)

lemma dot_commute: "dot a b = dot b a"
  by (simp add: dot_def mult.commute)

lemma dot_cross_self: "dot (cross a b) (cross a b) = dot a a * dot b b - (dot a b)\<^sup>2"
  by (simp add: dot_def cross_def power2_eq_square algebra_simps)

lemma normalize_v_unit:
  assumes "dot v v = 1"
  shows "normalize_v v = v"
  using assms by (simp add: normalize_v_def length_v_def)

lemma length_v_unit_iff: "length_v v = 1 \<longleftrightarrow> dot v v = 1"
  by (simp add: length_v_def)

lemma dot_normalize_v_left:
  "dot (normalize_v v) w = (if length_v v = 0 then 0 else dot v w / length_v v)"
  by (simp add: normalize_v_def Let_def dot_def add_divide_distrib)

lemma dot_normalize_v_self:
  assumes "dot v v \<noteq> 0"
  shows "dot (normalize_v v) (normalize_v v) = 1"
proof -
  have pos: "0 < dot v v"
    using assms dot_self_nonneg[of v] by simp
  have l: "length_v v * length_v v = dot v v"
    using pos by (simp add: length_v_def)
  have l0: "length_v v \<noteq> 0"
    using pos by (simp add: length_v_def)
  have "dot (normalize_v v) (normalize_v v) =
          (vx v * vx v + vy v * vy v + vz v * vz v) / (length_v v * length_v v)"
    using l0 by (simp add: normalize_v_def Let_def dot_def add_divide_distrib)
  also have "\<dots> = dot v v / dot v v"
    by (simp add: l dot_def)
  finally show ?thesis using assms by simp
qed

lemma rotation_norm_product:
  fixes a b c s :: real
  shows "(a * c - b * s)\<^sup>2 + (a * s + b * c)\<^sup>2 = (a\<^sup>2 + b\<^sup>2) * (s\<^sup>2 + c\<^sup>2)"
  by (simp add: power2_eq_square algebra_simps)

lemma rotation_keeps_norm:
  fixes a b :: real
  shows "(a * cos t - b * sin t)\<^sup>2 + (a * sin t + b * cos t)\<^sup>2 = a\<^sup>2 + b\<^sup>2"
  using rotation_norm_product[of a "cos t" b "sin t"] by simp

text \<open>
  \<^verbatim>\<open>pan\<close> re-derives both \<^verbatim>\<open>right\<close> and \<^verbatim>\<open>up\<close> from the rotated direction: from a unit
  direction it yields an orthonormal basis, unless the rotated direction is parallel to
  the old \<^verbatim>\<open>up\<close>.
\<close>

lemma pan_orthonormal:
  assumes unit: "length_v (cam_direction cam) = 1"
    and nondeg: "dot (cross (cam_direction (pan cam degrees)) (up cam))
                     (cross (cam_direction (pan cam degrees)) (up cam)) \<noteq> 0"
  shows "dot (right (pan cam degrees)) (up (pan cam degrees)) = 0 \<and>
         dot (right (pan cam degrees)) (cam_direction (pan cam degrees)) = 0 \<and>
         dot (up (pan cam degrees)) (cam_direction (pan cam degrees)) = 0 \<and>
         length_v (right (pan cam degrees)) = 1 \<and>
         length_v (up (pan cam degrees)) = 1 \<and>
         length_v (cam_direction (pan cam degrees)) = 1"
proof -
  define th where "th = (- degrees * pi) / 180"
  define rot where "rot = \<lparr>vx = vx (cam_direction cam) * cos th - vz (cam_direction cam) * sin th,
                            vy = vy (cam_direction cam),
                            vz = vx (cam_direction cam) * sin th + vz (cam_direction cam) * cos th\<rparr>"
  define d where "d = normalize_v rot"
  define r where "r = normalize_v (cross d (up cam))"
  define u where "u = normalize_v (cross r d)"
  have p: "cam_direction (pan cam degrees) = d" "right (pan cam degrees) = r"
    "up (pan cam degrees) = u"
    by (simp_all add: pan_def Let_def d_def r_def u_def rot_def th_def)
  have "dot rot rot =
          ((vx (cam_direction cam) * cos th - vz (cam_direction cam) * sin th)\<^sup>2 +
           (vx (cam_direction cam) * sin th + vz (cam_direction cam) * cos th)\<^sup>2) +
          (vy (cam_direction cam))\<^sup>2"
    by (simp add: rot_def dot_def power2_eq_square)
  also have "\<dots> = ((vx (cam_direction cam))\<^sup>2 + (vz (cam_direction cam))\<^sup>2) +
                    (vy (cam_direction cam))\<^sup>2"
    by (simp only: rotation_keeps_norm)
  also have "\<dots> = dot (cam_direction cam) (cam_direction cam)"
    by (simp add: dot_def power2_eq_square)
  also have "\<dots> = 1"
    using unit by (simp add: length_v_unit_iff)
  finally have rot1: "dot rot rot = 1" .
  have dd: "dot d d = 1"
    using rot1 by (simp add: d_def normalize_v_unit)
  have w: "dot (cross d (up cam)) (cross d (up cam)) \<noteq> 0"
    using nondeg by (simp add: p)
  have rr: "dot r r = 1"
    unfolding r_def using w by (rule dot_normalize_v_self)
  have rd: "dot r d = 0"
    unfolding r_def by (simp add: dot_normalize_v_left dot_cross_left)
  have vv: "dot (cross r d) (cross r d) = 1"
    by (simp add: dot_cross_self rr dd rd)
  have u_eq: "u = cross r d"
    unfolding u_def using vv by (rule normalize_v_unit)
  have ur: "dot u r = 0" and ud: "dot u d = 0"
    by (simp_all add: u_eq dot_cross_left dot_cross_right)
  have uu: "dot u u = 1"
    by (simp add: u_eq vv)
  show ?thesis
    using dd rr uu rd ur ud by (simp add: p length_v_unit_iff dot_commute[of r u])
qed

text \<open>
  \<^verbatim>\<open>tilt\<close> recomputes \<^verbatim>\<open>up\<close> only: \<^verbatim>\<open>up\<close> stays orthogonal to \<^verbatim>\<open>right\<close> and to the
  new direction, while nothing keeps \<^verbatim>\<open>right\<close> orthogonal to the new direction.
\<close>

lemma tilt_up_orthogonal:
  "dot (up (tilt cam degrees)) (right (tilt cam degrees)) = 0 \<and>
   dot (up (tilt cam degrees)) (cam_direction (tilt cam degrees)) = 0 \<and>
   right (tilt cam degrees) = right cam"
  by (simp add: tilt_def Let_def dot_normalize_v_left dot_cross_left dot_cross_right)

lemma sqrt_25: "sqrt 25 = 5"
  using real_sqrt_abs[of 5] by simp

lemma new_Camera_example:
  "new_Camera (new_Vector3 0 0 0) (new_Vector3 3 0 (- 4)) (new_Vector3 0 1 0) 60 1 =
     \<lparr>cam_position = new_Vector3 0 0 0, cam_direction = new_Vector3 (3 / 5) 0 (- 4 / 5),
      right = new_Vector3 (4 / 5) 0 (3 / 5), up = new_Vector3 0 1 0, fov = 60, aspectRatio = 1,
      fovRadians = pi / 3\<rparr>"
  by (simp add: new_Camera_def Let_def normalize_v_def length_v_def dot_def subtract_def
      cross_def sqrt_25)

text \<open>
  C2.  The basis does not stay orthogonal under \<^verbatim>\<open>tilt\<close>.  The camera constructed at the
  origin, looking at \<open>(3,0,-4)\<close> with the up guide \<open>(0,1,0)\<close>, has an orthonormal basis.
  \<^verbatim>\<open>tilt(90)\<close> turns its direction about the world x axis into \<open>(3/5, 4/5, 0)\<close> and keeps
  \<^verbatim>\<open>right\<close> \<open>= (4/5, 0, 3/5)\<close>: their dot product is \<open>12/25\<close>.  The cross product that
  \<^verbatim>\<open>tilt\<close> normalizes is not the zero vector.
\<close>

theorem tilt_breaks_orthogonality:
  "(let cam = new_Camera (new_Vector3 0 0 0) (new_Vector3 3 0 (- 4)) (new_Vector3 0 1 0) 60 1
    in dot (right cam) (up cam) = 0 \<and> dot (right cam) (cam_direction cam) = 0 \<and>
       dot (up cam) (cam_direction cam) = 0 \<and>
       length_v (right cam) = 1 \<and> length_v (up cam) = 1 \<and> length_v (cam_direction cam) = 1 \<and>
       cam_direction (tilt cam 90) = new_Vector3 (3 / 5) (4 / 5) 0 \<and>
       right (tilt cam 90) = new_Vector3 (4 / 5) 0 (3 / 5) \<and>
       cross (right cam) (cam_direction (tilt cam 90)) =
         new_Vector3 (- 12 / 25) (9 / 25) (16 / 25) \<and>
       dot (right (tilt cam 90)) (cam_direction (tilt cam 90)) = 12 / 25)"
  unfolding new_Camera_example
  by (simp add: tilt_def Let_def normalize_v_def length_v_def dot_def cross_def)

end
